theory Spec2Isabelle
  imports Main "HOL-Library.Sublist"
begin

section \<open>Python values, strings and exceptions\<close>

text \<open>
  The program is one Python module, \<^verbatim>\<open>jenkins_mcp.py\<close>: an API client
  (\<^verbatim>\<open>JenkinsManager\<close>) and two dispatcher entry points (\<^verbatim>\<open>read_resource\<close>,
  \<^verbatim>\<open>call_tool\<close>).

  A Python \<^verbatim>\<open>str\<close> is modelled as a \<^typ>\<open>string\<close> holding its UTF-8 bytes.
  Concatenation, equality, substring search, splitting at the newline character and joining
  agree on both representations, and nothing in the program reads the length of a string.

  Values decoded from JSON, and the values of the argument dict of a tool call, are dynamically
  typed. They are modelled by \<open>json\<close>; numbers are the integers (the build server reports
  integers only), a dict is the association list of its items, looked up with \<^const>\<open>map_of\<close>.
\<close>

datatype json =
    JNull
  | JBool bool
  | JInt int
  | JStr string
  | JList "json list"
  | JObj "(string \<times> json) list"

text \<open>
  The exceptions that can be raised below the dispatcher. Each carries the text that
  \<^verbatim>\<open>str(e)\<close> gives. \<open>ConnectTimeout\<close> and \<open>HTTPStatusError\<close> are the two classes of
  the HTTP library the client catches by name; \<open>HTTPStatusError\<close> also carries
  \<^verbatim>\<open>e.response.status_code\<close>. \<open>TransportError\<close> stands for every other error of the
  HTTP library, \<open>PyException\<close> for a plain \<^verbatim>\<open>Exception(msg)\<close>.
\<close>

datatype exn =
    ConnectTimeout string
  | HTTPStatusError int string
  | TransportError string
  | JSONDecodeError string
  | AttributeError string
  | TypeError string
  | ValueError string
  | OSError string
  | PyException string

fun str_exn :: "exn \<Rightarrow> string" where
  "str_exn (ConnectTimeout m) = m"
| "str_exn (HTTPStatusError c m) = m"
| "str_exn (TransportError m) = m"
| "str_exn (JSONDecodeError m) = m"
| "str_exn (AttributeError m) = m"
| "str_exn (TypeError m) = m"
| "str_exn (ValueError m) = m"
| "str_exn (OSError m) = m"
| "str_exn (PyException m) = m"

text \<open>Sequencing of computations that may raise.\<close>

definition bind_e :: "exn + 'a \<Rightarrow> ('a \<Rightarrow> exn + 'b) \<Rightarrow> exn + 'b" where
  "bind_e m f = (case m of Inl e \<Rightarrow> Inl e | Inr x \<Rightarrow> f x)"

text \<open>Truth value of a Python object, as \<^verbatim>\<open>if x\<close>, \<^verbatim>\<open>not x\<close>, \<^verbatim>\<open>and\<close>, \<^verbatim>\<open>or\<close>
  and \<^verbatim>\<open>all\<close> test it.\<close>

fun truthy :: "json \<Rightarrow> bool" where
  "truthy JNull = False"
| "truthy (JBool b) = b"
| "truthy (JInt i) = (i \<noteq> 0)"
| "truthy (JStr s) = (s \<noteq> [])"
| "truthy (JList xs) = (xs \<noteq> [])"
| "truthy (JObj kvs) = (kvs \<noteq> [])"

fun type_name :: "json \<Rightarrow> string" where
  "type_name JNull = ''NoneType''"
| "type_name (JBool b) = ''bool''"
| "type_name (JInt i) = ''int''"
| "type_name (JStr s) = ''str''"
| "type_name (JList xs) = ''list''"
| "type_name (JObj kvs) = ''dict''"

definition quoted :: "string \<Rightarrow> string" where
  "quoted s = [CHR 0x27] @ s @ [CHR 0x27]"

definition no_attribute :: "json \<Rightarrow> string \<Rightarrow> exn" where
  "no_attribute v a =
     AttributeError (quoted (type_name v) @ '' object has no attribute '' @ quoted a)"

text \<open>\<^verbatim>\<open>obj.get(key, default)\<close>: only a dict has the method.\<close>

fun py_get :: "json \<Rightarrow> string \<Rightarrow> json \<Rightarrow> exn + json" where
  "py_get (JObj kvs) k d = Inr (case map_of kvs k of None \<Rightarrow> d | Some v \<Rightarrow> v)"
| "py_get v k d = Inl (no_attribute v ''get'')"

text \<open>\<^verbatim>\<open>arguments.get(key, default)\<close> and \<^verbatim>\<open>arguments.get(key)\<close> on the argument
  dict of a tool call, which is a dict by the entry point's signature.\<close>

definition args_get :: "(string \<rightharpoonup> json) \<Rightarrow> string \<Rightarrow> json \<Rightarrow> json" where
  "args_get arguments k d = (case arguments k of None \<Rightarrow> d | Some v \<Rightarrow> v)"

text \<open>The items a \<^verbatim>\<open>for\<close> loop visits: a dict yields its keys, a string its characters,
  and \<^verbatim>\<open>None\<close>, a number or a boolean is not iterable.\<close>

fun py_iter :: "json \<Rightarrow> exn + json list" where
  "py_iter (JList xs) = Inr xs"
| "py_iter (JObj kvs) = Inr (map (\<lambda>kv. JStr (fst kv)) kvs)"
| "py_iter (JStr s) = Inr (map (\<lambda>c. JStr [c]) s)"
| "py_iter v = Inl (TypeError (quoted (type_name v) @ '' object is not iterable''))"

text \<open>Decimal text of an integer, as \<^verbatim>\<open>str(n)\<close> and an f-string give it.\<close>

definition digit_char :: "nat \<Rightarrow> char" where
  "digit_char d = char_of (48 + d)"

fun str_nat :: "nat \<Rightarrow> string" where
  "str_nat n = (if n < 10 then [digit_char n] else str_nat (n div 10) @ [digit_char (n mod 10)])"

declare str_nat.simps [simp del]

definition str_int :: "int \<Rightarrow> string" where
  "str_int i = (if i < 0 then CHR ''-'' # str_nat (nat (- i)) else str_nat (nat i))"

text \<open>\<^verbatim>\<open>s.split('\n')\<close> and \<^verbatim>\<open>'\n'.join(xs)\<close>.\<close>

definition newline :: char where
  "newline = CHR 0x0A"

fun split_lines :: "string \<Rightarrow> string list" where
  "split_lines [] = [[]]"
| "split_lines (c # cs) =
     (if c = newline then [] # split_lines cs
      else (case split_lines cs of [] \<Rightarrow> [[c]] | l # ls \<Rightarrow> (c # l) # ls))"

fun join_lines :: "string list \<Rightarrow> string" where
  "join_lines [] = []"
| "join_lines [l] = l"
| "join_lines (l # m # ls) = l @ newline # join_lines (m # ls)"

text \<open>The slice \<^verbatim>\<open>xs[i:]\<close>: a negative start counts from the end and is clamped at the
  front of the list, a start beyond the end gives the empty list.\<close>

definition slice_from :: "int \<Rightarrow> 'a list \<Rightarrow> 'a list" where
  "slice_from i xs =
     (if i < 0 then drop (nat (int (length xs) + i)) xs else drop (nat i) xs)"

text \<open>Unary minus, \<^verbatim>\<open>-x\<close>: defined on integers and booleans (\<^verbatim>\<open>True\<close> is 1).\<close>

fun py_neg :: "json \<Rightarrow> exn + int" where
  "py_neg (JInt i) = Inr (- i)"
| "py_neg (JBool b) = Inr (- (if b then 1 else 0))"
| "py_neg v = Inl (TypeError (''bad operand type for unary -: '' @ quoted (type_name v)))"

text \<open>The comparison \<^verbatim>\<open>x > 0\<close>.\<close>

fun py_gt0 :: "json \<Rightarrow> exn + bool" where
  "py_gt0 (JInt i) = Inr (0 < i)"
| "py_gt0 (JBool b) = Inr b"
| "py_gt0 v = Inl (TypeError (quoted ''>'' @ '' not supported between instances of ''
       @ quoted (type_name v) @ '' and '' @ quoted ''int''))"

text \<open>A key of a dict lookup has to be hashable; lists and dicts are not.\<close>

fun py_hashable :: "json \<Rightarrow> exn + json" where
  "py_hashable (JList xs) = Inl (TypeError (''unhashable type: '' @ quoted ''list''))"
| "py_hashable (JObj kvs) = Inl (TypeError (''unhashable type: '' @ quoted ''dict''))"
| "py_hashable v = Inr v"

section \<open>The HTTP library and the rest of the environment\<close>

datatype http_method = GET | POST

text \<open>A request as the client builds it: the URL, the headers and, for a POST with
  \<^verbatim>\<open>data=\<close>, the form fields.\<close>

record request =
  req_method :: http_method
  req_url :: string
  req_headers :: "(string \<times> string) list"
  req_data :: "json option"

text \<open>What the program reads of a response: \<^verbatim>\<open>status_code\<close>, \<^verbatim>\<open>text\<close> and the
  outcome of \<^verbatim>\<open>json()\<close>, which raises on a body that is not JSON.\<close>

record response =
  status_code :: int
  resp_text :: string
  resp_json :: "exn + json"

text \<open>
  Library code and process state the module uses, taken as parameters:
  \<^item> \<open>http_send\<close>: the answer of \<^verbatim>\<open>client.get\<close>/\<^verbatim>\<open>client.post\<close>, a response or a raised error;
  \<^item> \<open>status_error_message\<close>: the message the library gives an \<^verbatim>\<open>HTTPStatusError\<close>;
  \<^item> \<open>str_lower\<close>: \<^verbatim>\<open>str.lower\<close>;
  \<^item> \<open>py_repr\<close>: the text an f-string gives a list or a dict;
  \<^item> \<open>json_dumps\<close>: \<^verbatim>\<open>json.dumps(v, indent=2, ensure_ascii=b)\<close>;
  \<^item> \<open>format_timestamp\<close>: \<^verbatim>\<open>datetime.fromtimestamp(t / 1000).strftime('%Y-%m-%d %H:%M')\<close>;
  \<^item> \<open>JENKINS_URL\<close>: the module's global of that name.
\<close>

record env =
  http_send :: "request \<Rightarrow> exn + response"
  status_error_message :: "response \<Rightarrow> string"
  str_lower :: "string \<Rightarrow> string"
  py_repr :: "json \<Rightarrow> string"
  json_dumps :: "bool \<Rightarrow> json \<Rightarrow> string"
  format_timestamp :: "json \<Rightarrow> exn + string"
  JENKINS_URL :: string

text \<open>Modelled from the spec: \<^verbatim>\<open>Response.raise_for_status\<close> belongs to the HTTP library,
  which is not part of the module; by the specification every non-2xx response is an error.\<close>

definition raise_for_status :: "env \<Rightarrow> response \<Rightarrow> exn + unit" where
  "raise_for_status E r =
     (if 200 \<le> status_code r \<and> status_code r < 300 then Inr ()
      else Inl (HTTPStatusError (status_code r) (status_error_message E r)))"

text \<open>The text an f-string puts for a value.\<close>

fun fmt :: "env \<Rightarrow> json \<Rightarrow> string" where
  "fmt E JNull = ''None''"
| "fmt E (JBool b) = (if b then ''True'' else ''False'')"
| "fmt E (JInt i) = str_int i"
| "fmt E (JStr s) = s"
| "fmt E (JList xs) = py_repr E (JList xs)"
| "fmt E (JObj kvs) = py_repr E (JObj kvs)"

text \<open>A computation that talks to the server: its outcome and the requests it issued,
  in order.\<close>

type_synonym 'a io = "(exn + 'a) \<times> request list"

definition bind_io :: "'a io \<Rightarrow> ('a \<Rightarrow> 'b io) \<Rightarrow> 'b io" where
  "bind_io m f =
     (case m of
        (Inl e, log) \<Rightarrow> (Inl e, log)
      | (Inr x, log) \<Rightarrow> (case f x of (r, log') \<Rightarrow> (r, log @ log')))"

definition pure_io :: "exn + 'a \<Rightarrow> 'a io" where
  "pure_io r = (r, [])"

text \<open>One round trip: the request is issued, then the library answers or raises.\<close>

definition send :: "env \<Rightarrow> request \<Rightarrow> response io" where
  "send E rq = (http_send E rq, [rq])"

section \<open>The API client\<close>

text \<open>\<^verbatim>\<open>JenkinsJob\<close> and \<^verbatim>\<open>JenkinsBuild\<close>. The dataclasses do not check their
  annotations: a field holds whatever the JSON of the server held.\<close>

record JenkinsJob =
  j_name :: json
  j_url :: json
  j_color :: json
  j_buildable :: json
  j_last_build :: json

record JenkinsBuild =
  b_number :: json
  b_url :: json
  b_result :: json
  b_building :: json
  b_duration :: json
  b_timestamp :: json

text \<open>The state of a \<^verbatim>\<open>JenkinsManager\<close> that its methods read: the base URL, from
  which the constructor has stripped the trailing slashes, and the headers sent with every
  request (the Basic authorization and the content type).\<close>

record JenkinsManager =
  jenkins_url :: string
  headers :: "(string \<times> string) list"

definition http_get :: "env \<Rightarrow> JenkinsManager \<Rightarrow> string \<Rightarrow> response io" where
  "http_get E self path =
     send E \<lparr>req_method = GET, req_url = jenkins_url self @ path,
              req_headers = headers self, req_data = None\<rparr>"

definition http_post :: "env \<Rightarrow> JenkinsManager \<Rightarrow> string \<Rightarrow> json option \<Rightarrow> response io" where
  "http_post E self path d =
     send E \<lparr>req_method = POST, req_url = jenkins_url self @ path,
              req_headers = headers self, req_data = d\<rparr>"

text \<open>\<^verbatim>\<open>response.raise_for_status()\<close> followed by \<^verbatim>\<open>response.json()\<close>.\<close>

definition checked_json :: "env \<Rightarrow> response \<Rightarrow> exn + json" where
  "checked_json E r = bind_e (raise_for_status E r) (\<lambda>_. resp_json r)"

definition msg_connect_timeout :: string where
  "msg_connect_timeout =
     ''Timeout de conexi'' @ [CHR 0xC3, CHR 0xB3] @ ''n - '' @ [CHR 0xC2, CHR 0xBF]
       @ ''Est'' @ [CHR 0xC3, CHR 0xA1] @ ''s conectado a la VPN?''"

definition msg_auth :: string where
  "msg_auth = ''Error de autenticaci'' @ [CHR 0xC3, CHR 0xB3] @ ''n - Verifica usuario y token''"

definition msg_forbidden :: string where
  "msg_forbidden = ''Sin permisos - Verifica los permisos del usuario''"

text \<open>The two \<^verbatim>\<open>except\<close> clauses of \<^verbatim>\<open>test_connection\<close>; every other exception
  passes through.\<close>

fun test_connection_handler :: "exn \<Rightarrow> exn" where
  "test_connection_handler (ConnectTimeout m) = PyException msg_connect_timeout"
| "test_connection_handler (HTTPStatusError c m) =
     (if c = 401 then PyException msg_auth
      else if c = 403 then PyException msg_forbidden
      else PyException (''Error HTTP '' @ str_int c))"
| "test_connection_handler e = e"

definition test_connection :: "env \<Rightarrow> JenkinsManager \<Rightarrow> json io" where
  "test_connection E self =
     (case bind_io (http_get E self ''/api/json'') (\<lambda>r. pure_io (checked_json E r)) of
        (Inl e, log) \<Rightarrow> (Inl (test_connection_handler e), log)
      | (Inr v, log) \<Rightarrow> (Inr v, log))"

text \<open>The loop of \<^verbatim>\<open>get_jobs\<close>: one \<^verbatim>\<open>JenkinsJob\<close> per item, in order.\<close>

definition job_of :: "json \<Rightarrow> exn + JenkinsJob" where
  "job_of job_data =
     bind_e (py_get job_data ''name'' (JStr [])) (\<lambda>n.
     bind_e (py_get job_data ''url'' (JStr [])) (\<lambda>u.
     bind_e (py_get job_data ''color'' (JStr [])) (\<lambda>c.
     bind_e (py_get job_data ''buildable'' (JBool False)) (\<lambda>b.
     bind_e (py_get job_data ''lastBuild'' JNull) (\<lambda>l.
       Inr \<lparr>j_name = n, j_url = u, j_color = c, j_buildable = b, j_last_build = l\<rparr>)))))"

fun map_e :: "('a \<Rightarrow> exn + 'b) \<Rightarrow> 'a list \<Rightarrow> exn + 'b list" where
  "map_e f [] = Inr []"
| "map_e f (x # xs) = bind_e (f x) (\<lambda>y. bind_e (map_e f xs) (\<lambda>ys. Inr (y # ys)))"

definition jobs_tree :: string where
  "jobs_tree =
     ''/api/json?tree=jobs[name,url,color,buildable,lastBuild[number,url,result,building]]''"

definition get_jobs :: "env \<Rightarrow> JenkinsManager \<Rightarrow> JenkinsJob list io" where
  "get_jobs E self =
     bind_io (http_get E self jobs_tree) (\<lambda>r. pure_io (
       bind_e (checked_json E r) (\<lambda>data.
       bind_e (py_get data ''jobs'' (JList [])) (\<lambda>js.
       bind_e (py_iter js) (map_e job_of)))))"

definition get_job_info :: "env \<Rightarrow> JenkinsManager \<Rightarrow> json \<Rightarrow> json io" where
  "get_job_info E self job_name =
     bind_io (http_get E self (''/job/'' @ fmt E job_name @ ''/api/json''))
       (\<lambda>r. pure_io (checked_json E r))"

definition build_of :: "json \<Rightarrow> exn + JenkinsBuild" where
  "build_of build_data =
     bind_e (py_get build_data ''number'' (JInt 0)) (\<lambda>n.
     bind_e (py_get build_data ''url'' (JStr [])) (\<lambda>u.
     bind_e (py_get build_data ''result'' (JStr ''UNKNOWN'')) (\<lambda>r.
     bind_e (py_get build_data ''building'' (JBool False)) (\<lambda>b.
     bind_e (py_get build_data ''duration'' (JInt 0)) (\<lambda>d.
     bind_e (py_get build_data ''timestamp'' (JInt 0)) (\<lambda>t.
       Inr \<lparr>b_number = n, b_url = u, b_result = r, b_building = b,
            b_duration = d, b_timestamp = t\<rparr>))))))"

definition get_job_builds ::
  "env \<Rightarrow> JenkinsManager \<Rightarrow> json \<Rightarrow> json \<Rightarrow> JenkinsBuild list io" where
  "get_job_builds E self job_name limit =
     bind_io (http_get E self (''/job/'' @ fmt E job_name
         @ ''/api/json?tree=builds[number,url,result,building,duration,timestamp]{0,''
         @ fmt E limit @ ''}''))
       (\<lambda>r. pure_io (
         bind_e (checked_json E r) (\<lambda>data.
         bind_e (py_get data ''builds'' (JList [])) (\<lambda>bs.
         bind_e (py_iter bs) (map_e build_of)))))"

definition get_build_info :: "env \<Rightarrow> JenkinsManager \<Rightarrow> json \<Rightarrow> json \<Rightarrow> json io" where
  "get_build_info E self job_name build_number =
     bind_io (http_get E self (''/job/'' @ fmt E job_name @ ''/'' @ fmt E build_number
         @ ''/api/json''))
       (\<lambda>r. pure_io (checked_json E r))"

text \<open>\<^verbatim>\<open>get_build_console\<close>: the text is fetched whole, split at the newline character,
  and the slice \<^verbatim>\<open>lines_list[-lines:]\<close> is joined again.\<close>

definition tail_lines :: "json \<Rightarrow> string \<Rightarrow> exn + string" where
  "tail_lines lines console_output =
     bind_e (py_neg lines) (\<lambda>i. Inr (join_lines (slice_from i (split_lines console_output))))"

definition get_build_console ::
  "env \<Rightarrow> JenkinsManager \<Rightarrow> json \<Rightarrow> json \<Rightarrow> json \<Rightarrow> string io" where
  "get_build_console E self job_name build_number lines =
     bind_io (http_get E self (''/job/'' @ fmt E job_name @ ''/'' @ fmt E build_number
         @ ''/consoleText''))
       (\<lambda>r. pure_io (
         bind_e (raise_for_status E r) (\<lambda>_. tail_lines lines (resp_text r))))"

text \<open>\<^verbatim>\<open>trigger_build\<close>: the branch is taken on the truth value of \<^verbatim>\<open>parameters\<close>;
  the status is not checked with \<^verbatim>\<open>raise_for_status\<close> but compared with 200 and 201.\<close>

definition trigger_build :: "env \<Rightarrow> JenkinsManager \<Rightarrow> json \<Rightarrow> json \<Rightarrow> bool io" where
  "trigger_build E self job_name parameters =
     bind_io
       (if truthy parameters
        then http_post E self (''/job/'' @ fmt E job_name @ ''/buildWithParameters'')
               (Some parameters)
        else http_post E self (''/job/'' @ fmt E job_name @ ''/build'') None)
       (\<lambda>r. pure_io (Inr (status_code r \<in> {200, 201})))"

definition get_queue_info :: "env \<Rightarrow> JenkinsManager \<Rightarrow> json io" where
  "get_queue_info E self =
     bind_io (http_get E self ''/queue/api/json'') (\<lambda>r. pure_io (
       bind_e (checked_json E r) (\<lambda>data. py_get data ''items'' (JList []))))"

section \<open>Text constants of the dispatcher\<close>

text \<open>The symbols and accented letters of the messages, as their UTF-8 bytes.\<close>

definition e_check :: string where "e_check = [CHR 0xE2, CHR 0x9C, CHR 0x85]"
definition e_cross :: string where "e_cross = [CHR 0xE2, CHR 0x9D, CHR 0x8C]"
definition e_question :: string where "e_question = [CHR 0xE2, CHR 0x9D, CHR 0x93]"
definition e_white_circle :: string where "e_white_circle = [CHR 0xE2, CHR 0x9A, CHR 0xAA]"
definition e_warning :: string where
  "e_warning = [CHR 0xE2, CHR 0x9A, CHR 0xA0, CHR 0xEF, CHR 0xB8, CHR 0x8F]"
definition e_pause :: string where
  "e_pause = [CHR 0xE2, CHR 0x8F, CHR 0xB8, CHR 0xEF, CHR 0xB8, CHR 0x8F]"
definition e_stop :: string where
  "e_stop = [CHR 0xE2, CHR 0x8F, CHR 0xB9, CHR 0xEF, CHR 0xB8, CHR 0x8F]"
definition e_next :: string where
  "e_next = [CHR 0xE2, CHR 0x8F, CHR 0xAD, CHR 0xEF, CHR 0xB8, CHR 0x8F]"
definition e_stopwatch :: string where
  "e_stopwatch = [CHR 0xE2, CHR 0x8F, CHR 0xB1, CHR 0xEF, CHR 0xB8, CHR 0x8F]"
definition e_label :: string where
  "e_label = [CHR 0xF0, CHR 0x9F, CHR 0x8F, CHR 0xB7, CHR 0xEF, CHR 0xB8, CHR 0x8F]"
definition e_link :: string where "e_link = [CHR 0xF0, CHR 0x9F, CHR 0x94, CHR 0x97]"
definition e_clipboard :: string where "e_clipboard = [CHR 0xF0, CHR 0x9F, CHR 0x93, CHR 0x8B]"
definition e_cycle :: string where "e_cycle = [CHR 0xF0, CHR 0x9F, CHR 0x94, CHR 0x84]"
definition e_chart :: string where "e_chart = [CHR 0xF0, CHR 0x9F, CHR 0x93, CHR 0x8A]"
definition e_wrench :: string where "e_wrench = [CHR 0xF0, CHR 0x9F, CHR 0x94, CHR 0xA7]"
definition e_numbers :: string where "e_numbers = [CHR 0xF0, CHR 0x9F, CHR 0x94, CHR 0xA2]"
definition e_memo :: string where "e_memo = [CHR 0xF0, CHR 0x9F, CHR 0x93, CHR 0x9D]"
definition e_calendar :: string where "e_calendar = [CHR 0xF0, CHR 0x9F, CHR 0x93, CHR 0x85]"
definition e_rocket :: string where "e_rocket = [CHR 0xF0, CHR 0x9F, CHR 0x9A, CHR 0x80]"
definition e_bulb :: string where "e_bulb = [CHR 0xF0, CHR 0x9F, CHR 0x92, CHR 0xA1]"

definition a_acute :: string where "a_acute = [CHR 0xC3, CHR 0xA1]"
definition i_acute :: string where "i_acute = [CHR 0xC3, CHR 0xAD]"
definition o_acute :: string where "o_acute = [CHR 0xC3, CHR 0xB3]"
definition u_acute :: string where "u_acute = [CHR 0xC3, CHR 0xBA]"
definition U_acute :: string where "U_acute = [CHR 0xC3, CHR 0x9A]"
definition inv_question :: string where "inv_question = [CHR 0xC2, CHR 0xBF]"

definition nl :: string where
  "nl = [newline]"

text \<open>The two words of \<^verbatim>\<open>... if x else 'No'\<close>, chosen on the truth value of \<open>x\<close>.\<close>

definition si_no :: "json \<Rightarrow> string" where
  "si_no v = (if truthy v then ''S'' @ i_acute else ''No'')"

text \<open>The failure marker that opens the text of a failed tool call, and the hint appended
  to a message that contains \<^verbatim>\<open>Timeout\<close>.\<close>

definition failure_marker :: string where
  "failure_marker = e_cross @ '' Error: ''"

definition vpn_hint :: string where
  "vpn_hint = nl @ e_bulb @ '' Tip: '' @ inv_question @ ''Est'' @ a_acute
       @ ''s conectado a la VPN?''"

definition msg_requires_job_name :: string where
  "msg_requires_job_name = failure_marker @ ''Se requiere job_name''"

definition msg_requires_job_and_build :: string where
  "msg_requires_job_and_build = failure_marker @ ''Se requieren job_name y build_number''"

section \<open>The catalog of tools\<close>

text \<open>\<^verbatim>\<open>list_tools\<close>: for each tool its name, the names and types of its properties and
  the list \<^verbatim>\<open>required\<close> of its input schema (the display texts are left out).\<close>

record tool =
  tool_name :: string
  tool_properties :: "(string \<times> string) list"
  tool_required :: "string list"

definition list_tools :: "tool list" where
  "list_tools =
     [\<lparr>tool_name = ''get_jobs'', tool_properties = [(''filter'', ''string'')],
        tool_required = []\<rparr>,
      \<lparr>tool_name = ''get_job_info'', tool_properties = [(''job_name'', ''string'')],
        tool_required = [''job_name'']\<rparr>,
      \<lparr>tool_name = ''get_job_builds'',
        tool_properties = [(''job_name'', ''string''), (''limit'', ''integer'')],
        tool_required = [''job_name'']\<rparr>,
      \<lparr>tool_name = ''get_build_console'',
        tool_properties = [(''job_name'', ''string''), (''build_number'', ''integer''),
          (''lines'', ''integer'')],
        tool_required = [''job_name'', ''build_number'']\<rparr>,
      \<lparr>tool_name = ''trigger_build'',
        tool_properties = [(''job_name'', ''string''), (''parameters'', ''object'')],
        tool_required = [''job_name'']\<rparr>,
      \<lparr>tool_name = ''get_failed_jobs'', tool_properties = [], tool_required = []\<rparr>,
      \<lparr>tool_name = ''test_connection'', tool_properties = [], tool_required = []\<rparr>]"

section \<open>The dispatcher: reading a resource\<close>

text \<open>A list comprehension with a condition that may raise: the first error ends it.\<close>

fun filter_e :: "('a \<Rightarrow> exn + bool) \<Rightarrow> 'a list \<Rightarrow> exn + 'a list" where
  "filter_e p [] = Inr []"
| "filter_e p (x # xs) =
     bind_e (p x) (\<lambda>b. bind_e (filter_e p xs) (\<lambda>ys. Inr (if b then x # ys else ys)))"

definition job_dict :: "JenkinsJob \<Rightarrow> json" where
  "job_dict job =
     JObj [(''name'', j_name job), (''url'', j_url job), (''color'', j_color job),
           (''buildable'', j_buildable job), (''last_build'', j_last_build job)]"

definition failed_job_dict :: "JenkinsJob \<Rightarrow> json" where
  "failed_job_dict job =
     JObj [(''name'', j_name job), (''color'', j_color job),
           (''last_build'', j_last_build job)]"

text \<open>The condition of the comprehension in the \<^verbatim>\<open>jenkins://failed-jobs\<close> branch of
  \<^verbatim>\<open>read_resource\<close>. The right operand of \<^verbatim>\<open>or\<close> is evaluated only when the left
  one is false, and \<^verbatim>\<open>.get\<close> only when \<^verbatim>\<open>job.last_build\<close> is true.\<close>

definition resource_failed_cond :: "JenkinsJob \<Rightarrow> exn + bool" where
  "resource_failed_cond job =
     (if j_color job \<in> set [JStr ''red'', JStr ''red_anime''] then Inr True
      else if \<not> truthy (j_last_build job) then Inr False
      else bind_e (py_get (j_last_build job) ''result'' JNull)
             (\<lambda>v. Inr (v = JStr ''FAILURE'')))"

definition resource_failed_jobs :: "JenkinsJob list \<Rightarrow> exn + JenkinsJob list" where
  "resource_failed_jobs jobs = filter_e resource_failed_cond jobs"

definition read_resource_body :: "env \<Rightarrow> JenkinsManager \<Rightarrow> string \<Rightarrow> string io" where
  "read_resource_body E mgr uri =
     (if uri = ''jenkins://jobs'' then
        bind_io (get_jobs E mgr) (\<lambda>jobs.
          pure_io (Inr (json_dumps E False (JList (map job_dict jobs)))))
      else if uri = ''jenkins://queue'' then
        bind_io (get_queue_info E mgr) (\<lambda>queue_items.
          pure_io (Inr (json_dumps E False queue_items)))
      else if uri = ''jenkins://failed-jobs'' then
        bind_io (get_jobs E mgr) (\<lambda>jobs. pure_io (
          bind_e (resource_failed_jobs jobs) (\<lambda>failed_jobs.
            Inr (json_dumps E False (JList (map failed_job_dict failed_jobs))))))
      else pure_io (Inl (ValueError (''Recurso no encontrado: '' @ uri))))"

text \<open>\<^verbatim>\<open>read_resource\<close>: the \<^verbatim>\<open>except Exception\<close> clause turns an error into the dump
  of a dict with the one key \<^verbatim>\<open>error\<close>.\<close>

definition read_resource :: "env \<Rightarrow> JenkinsManager \<Rightarrow> string \<Rightarrow> string \<times> request list" where
  "read_resource E mgr uri =
     (case read_resource_body E mgr uri of
        (Inr payload, log) \<Rightarrow> (payload, log)
      | (Inl e, log) \<Rightarrow> (json_dumps E True (JObj [(''error'', JStr (str_exn e))]), log))"

section \<open>The dispatcher: calling a tool\<close>

datatype text_content = TextContent string

text \<open>\<^verbatim>\<open>table.get(key, default)\<close> on a dict literal of the module.\<close>

definition table_get :: "(json \<times> string) list \<Rightarrow> json \<Rightarrow> string \<Rightarrow> exn + string" where
  "table_get table key d =
     bind_e (py_hashable key) (\<lambda>k. Inr (case map_of table k of None \<Rightarrow> d | Some s \<Rightarrow> s))"

text \<open>\<^verbatim>\<open>x.lower()\<close>: only a string has the method.\<close>

definition py_lower :: "env \<Rightarrow> json \<Rightarrow> exn + string" where
  "py_lower E v = (case v of JStr s \<Rightarrow> Inr (str_lower E s) | _ \<Rightarrow> Inl (no_attribute v ''lower''))"

text \<open>\<^verbatim>\<open>x // 60000\<close>, reached only for a value that \<^verbatim>\<open>x > 0\<close> accepted.\<close>

fun py_floordiv :: "json \<Rightarrow> int \<Rightarrow> exn + int" where
  "py_floordiv (JInt i) k = Inr (i div k)"
| "py_floordiv (JBool b) k = Inr ((if b then 1 else 0) div k)"
| "py_floordiv v k = Inl (TypeError (''unsupported operand type(s) for //: ''
       @ quoted (type_name v) @ '' and '' @ quoted ''int''))"

subsection \<open>\<^verbatim>\<open>test_connection\<close>\<close>

definition tool_test_connection :: "env \<Rightarrow> JenkinsManager \<Rightarrow> string io" where
  "tool_test_connection E mgr =
     bind_io (test_connection E mgr) (\<lambda>connection_info. pure_io (
       bind_e (py_get connection_info ''version'' (JStr ''N/A'')) (\<lambda>version.
         Inr (e_check @ '' Conexi'' @ o_acute @ ''n exitosa con Jenkins'' @ nl
              @ e_label @ '' Versi'' @ o_acute @ ''n: '' @ fmt E version @ nl
              @ e_link @ '' URL: '' @ JENKINS_URL E))))"

subsection \<open>\<^verbatim>\<open>get_jobs\<close>\<close>

text \<open>The filter of \<^verbatim>\<open>get_jobs\<close>: with a true (non-empty) \<^verbatim>\<open>filter_name\<close> the jobs are
  those whose lower-cased name contains it; otherwise the list is left as it is.\<close>

definition name_matches :: "env \<Rightarrow> string \<Rightarrow> JenkinsJob \<Rightarrow> exn + bool" where
  "name_matches E filter_name job =
     bind_e (py_lower E (j_name job)) (\<lambda>n. Inr (sublist filter_name n))"

definition filter_jobs :: "env \<Rightarrow> string \<Rightarrow> JenkinsJob list \<Rightarrow> exn + JenkinsJob list" where
  "filter_jobs E filter_name jobs =
     (if filter_name \<noteq> [] then filter_e (name_matches E filter_name) jobs else Inr jobs)"

definition job_status_table :: "(json \<times> string) list" where
  "job_status_table =
     [(JStr ''blue'', e_check),
      (JStr ''blue_anime'', e_cycle),
      (JStr ''red'', e_cross),
      (JStr ''red_anime'', e_cycle @ e_cross),
      (JStr ''yellow'', e_warning),
      (JStr ''grey'', e_white_circle),
      (JStr ''disabled'', e_pause)]"

definition render_job :: "env \<Rightarrow> JenkinsJob \<Rightarrow> exn + string" where
  "render_job E job =
     bind_e (table_get job_status_table (j_color job) e_question) (\<lambda>status_emoji.
     bind_e (if truthy (j_last_build job)
             then bind_e (py_get (j_last_build job) ''number'' (JStr ''N/A'')) (\<lambda>n.
                  bind_e (py_get (j_last_build job) ''result'' (JStr ''N/A'')) (\<lambda>r.
                    Inr (''   '' @ e_numbers @ '' '' @ U_acute @ ''ltimo build: #'' @ fmt E n @ nl
                         @ ''   '' @ e_chart @ '' Resultado: '' @ fmt E r @ nl)))
             else Inr []) (\<lambda>last.
       Inr (status_emoji @ '' **'' @ fmt E (j_name job) @ ''**'' @ nl
            @ ''   '' @ e_chart @ '' Estado: '' @ fmt E (j_color job) @ nl
            @ ''   '' @ e_wrench @ '' Ejecutable: '' @ si_no (j_buildable job) @ nl
            @ last @ nl)))"

definition render_jobs :: "env \<Rightarrow> JenkinsJob list \<Rightarrow> exn + string" where
  "render_jobs E jobs =
     (if jobs = [] then Inr (e_clipboard @ '' No se encontraron jobs'')
      else bind_e (map_e (render_job E) jobs) (\<lambda>parts.
        Inr (e_clipboard @ '' **Jobs de Jenkins:** ('' @ str_int (int (length jobs))
             @ '' total)'' @ nl @ nl @ concat parts)))"

definition tool_get_jobs :: "env \<Rightarrow> JenkinsManager \<Rightarrow> (string \<rightharpoonup> json) \<Rightarrow> string io" where
  "tool_get_jobs E mgr arguments =
     bind_io (pure_io (py_lower E (args_get arguments ''filter'' (JStr [])))) (\<lambda>filter_name.
     bind_io (get_jobs E mgr) (\<lambda>jobs. pure_io (
       bind_e (filter_jobs E filter_name jobs) (render_jobs E))))"

subsection \<open>\<^verbatim>\<open>get_job_info\<close>\<close>

definition render_job_info :: "env \<Rightarrow> json \<Rightarrow> json \<Rightarrow> exn + string" where
  "render_job_info E job_name job_info =
     bind_e (py_get job_info ''description'' (JStr (''Sin descripci'' @ o_acute @ ''n'')))
       (\<lambda>description.
     bind_e (py_get job_info ''color'' (JStr ''N/A'')) (\<lambda>color.
     bind_e (py_get job_info ''buildable'' JNull) (\<lambda>buildable.
     bind_e (py_get job_info ''url'' (JStr ''N/A'')) (\<lambda>url.
     bind_e (py_get job_info ''lastBuild'' JNull) (\<lambda>last_build.
     bind_e (if truthy last_build
             then bind_e (py_get last_build ''number'' JNull) (\<lambda>n.
                  bind_e (py_get last_build ''result'' (JStr ''N/A'')) (\<lambda>r.
                    Inr (e_numbers @ '' **'' @ U_acute @ ''ltimo Build:** #'' @ fmt E n @ nl
                         @ e_chart @ '' **Resultado:** '' @ fmt E r @ nl)))
             else Inr []) (\<lambda>last.
     bind_e (py_get job_info ''nextBuildNumber'' (JStr ''N/A'')) (\<lambda>next_build.
       Inr (e_wrench @ '' **Job: '' @ fmt E job_name @ ''**'' @ nl @ nl
            @ e_memo @ '' **Descripci'' @ o_acute @ ''n:** '' @ fmt E description @ nl
            @ e_chart @ '' **Estado:** '' @ fmt E color @ nl
            @ e_wrench @ '' **Ejecutable:** '' @ si_no buildable @ nl
            @ e_link @ '' **URL:** '' @ fmt E url @ nl @ nl
            @ last
            @ e_next @ '' **Pr'' @ o_acute @ ''ximo Build:** #'' @ fmt E next_build @ nl))))))))"

definition tool_get_job_info :: "env \<Rightarrow> JenkinsManager \<Rightarrow> (string \<rightharpoonup> json) \<Rightarrow> string io" where
  "tool_get_job_info E mgr arguments =
     (let job_name = args_get arguments ''job_name'' JNull in
      if \<not> truthy job_name then pure_io (Inr msg_requires_job_name)
      else bind_io (get_job_info E mgr job_name) (\<lambda>job_info.
             pure_io (render_job_info E job_name job_info)))"

subsection \<open>\<^verbatim>\<open>get_job_builds\<close>\<close>

definition build_status_table :: "(json \<times> string) list" where
  "build_status_table =
     [(JStr ''SUCCESS'', e_check),
      (JStr ''FAILURE'', e_cross),
      (JStr ''UNSTABLE'', e_warning),
      (JStr ''ABORTED'', e_stop),
      (JNull, e_cycle)]"

definition render_build :: "env \<Rightarrow> JenkinsBuild \<Rightarrow> exn + string" where
  "render_build E build =
     bind_e (table_get build_status_table (b_result build) e_question) (\<lambda>status_emoji.
     bind_e (bind_e (py_gt0 (b_duration build)) (\<lambda>pos.
               if pos
               then bind_e (py_floordiv (b_duration build) 60000) (\<lambda>duration_min.
                      Inr (''   '' @ e_stopwatch @ '' Duraci'' @ o_acute @ ''n: ''
                           @ str_int duration_min @ '' min'' @ nl))
               else Inr [])) (\<lambda>duration.
     bind_e (bind_e (py_gt0 (b_timestamp build)) (\<lambda>pos.
               if pos
               then bind_e (format_timestamp E (b_timestamp build)) (\<lambda>stamp.
                      Inr (''   '' @ e_calendar @ '' Fecha: '' @ stamp @ nl))
               else Inr [])) (\<lambda>date.
       Inr (status_emoji @ '' **Build #'' @ fmt E (b_number build) @ ''**'' @ nl
            @ ''   '' @ e_chart @ '' Resultado: ''
            @ (if truthy (b_result build) then fmt E (b_result build) else ''En progreso'') @ nl
            @ ''   '' @ e_cycle @ '' Ejecut'' @ a_acute @ ''ndose: ''
            @ si_no (b_building build) @ nl
            @ duration @ date @ nl))))"

definition render_builds :: "env \<Rightarrow> json \<Rightarrow> JenkinsBuild list \<Rightarrow> exn + string" where
  "render_builds E job_name builds =
     (if builds = []
      then Inr (e_clipboard @ '' No hay builds para el job '' @ quoted (fmt E job_name))
      else bind_e (map_e (render_build E) builds) (\<lambda>parts.
        Inr (e_clipboard @ '' **Builds del job '' @ quoted (fmt E job_name) @ '':** (''
             @ str_int (int (length builds)) @ '' builds)'' @ nl @ nl @ concat parts)))"

definition tool_get_job_builds :: "env \<Rightarrow> JenkinsManager \<Rightarrow> (string \<rightharpoonup> json) \<Rightarrow> string io" where
  "tool_get_job_builds E mgr arguments =
     (let job_name = args_get arguments ''job_name'' JNull;
          limit = args_get arguments ''limit'' (JInt 10) in
      if \<not> truthy job_name then pure_io (Inr msg_requires_job_name)
      else bind_io (get_job_builds E mgr job_name limit) (\<lambda>builds.
             pure_io (render_builds E job_name builds)))"

subsection \<open>\<^verbatim>\<open>get_build_console\<close>\<close>

text \<open>\<^verbatim>\<open>all([job_name, build_number])\<close> is the conjunction of the two truth values.\<close>

definition tool_get_build_console ::
  "env \<Rightarrow> JenkinsManager \<Rightarrow> (string \<rightharpoonup> json) \<Rightarrow> string io" where
  "tool_get_build_console E mgr arguments =
     (let job_name = args_get arguments ''job_name'' JNull;
          build_number = args_get arguments ''build_number'' JNull;
          lines = args_get arguments ''lines'' (JInt 50) in
      if \<not> list_all truthy [job_name, build_number]
      then pure_io (Inr msg_requires_job_and_build)
      else bind_io (get_build_console E mgr job_name build_number lines) (\<lambda>console_output.
             pure_io (Inr (e_memo @ '' **Console logs - '' @ fmt E job_name @ '' #''
               @ fmt E build_number @ ''** ('' @ u_acute @ ''ltimas '' @ fmt E lines
               @ '' l'' @ i_acute @ ''neas)'' @ nl @ nl
               @ ''```'' @ nl @ console_output @ nl @ ''```''))))"

subsection \<open>\<^verbatim>\<open>trigger_build\<close>\<close>

definition tool_trigger_build ::
  "env \<Rightarrow> JenkinsManager \<Rightarrow> (string \<rightharpoonup> json) \<Rightarrow> string io" where
  "tool_trigger_build E mgr arguments =
     (let job_name = args_get arguments ''job_name'' JNull;
          parameters = args_get arguments ''parameters'' (JObj []) in
      if \<not> truthy job_name then pure_io (Inr msg_requires_job_name)
      else bind_io (trigger_build E mgr job_name parameters) (\<lambda>success.
             pure_io (Inr (
               if success
               then e_rocket @ '' Build ejecutado exitosamente para '' @ quoted (fmt E job_name)
                    @ (if truthy parameters
                       then '' con par'' @ a_acute @ ''metros: '' @ fmt E parameters else [])
               else e_cross @ '' Error al ejecutar build para '' @ quoted (fmt E job_name)))))"

subsection \<open>\<^verbatim>\<open>get_failed_jobs\<close>\<close>

text \<open>The condition of the comprehension in the \<^verbatim>\<open>get_failed_jobs\<close> branch of
  \<^verbatim>\<open>call_tool\<close>, written out a second time in the source.\<close>

definition tool_failed_cond :: "JenkinsJob \<Rightarrow> exn + bool" where
  "tool_failed_cond job =
     (if j_color job \<in> set [JStr ''red'', JStr ''red_anime''] then Inr True
      else if \<not> truthy (j_last_build job) then Inr False
      else bind_e (py_get (j_last_build job) ''result'' JNull)
             (\<lambda>v. Inr (v = JStr ''FAILURE'')))"

definition tool_failed_jobs :: "JenkinsJob list \<Rightarrow> exn + JenkinsJob list" where
  "tool_failed_jobs jobs = filter_e tool_failed_cond jobs"

definition render_failed_job :: "env \<Rightarrow> JenkinsJob \<Rightarrow> exn + string" where
  "render_failed_job E job =
     bind_e (if truthy (j_last_build job)
             then bind_e (py_get (j_last_build job) ''number'' JNull) (\<lambda>n.
                  bind_e (py_get (j_last_build job) ''result'' JNull) (\<lambda>r.
                    Inr (''   '' @ e_numbers @ '' Build: #'' @ fmt E n @ nl
                         @ ''   '' @ e_chart @ '' Resultado: '' @ fmt E r @ nl)))
             else Inr []) (\<lambda>last.
       Inr (e_cross @ '' **'' @ fmt E (j_name job) @ ''**'' @ nl
            @ ''   '' @ e_chart @ '' Estado: '' @ fmt E (j_color job) @ nl
            @ last @ nl))"

definition render_failed_jobs :: "env \<Rightarrow> JenkinsJob list \<Rightarrow> exn + string" where
  "render_failed_jobs E failed_jobs =
     (if failed_jobs = [] then Inr (e_check @ '' No hay jobs fallidos actualmente'')
      else bind_e (map_e (render_failed_job E) failed_jobs) (\<lambda>parts.
        Inr (e_cross @ '' **Jobs Fallidos:** ('' @ str_int (int (length failed_jobs))
             @ '' jobs)'' @ nl @ nl @ concat parts)))"

definition tool_get_failed_jobs :: "env \<Rightarrow> JenkinsManager \<Rightarrow> string io" where
  "tool_get_failed_jobs E mgr =
     bind_io (get_jobs E mgr) (\<lambda>jobs. pure_io (
       bind_e (tool_failed_jobs jobs) (render_failed_jobs E)))"

subsection \<open>\<^verbatim>\<open>call_tool\<close>\<close>

text \<open>The \<^verbatim>\<open>if\<close>/\<^verbatim>\<open>elif\<close> chain inside the \<^verbatim>\<open>try\<close>, in the order of the source.\<close>

definition call_tool_body ::
  "env \<Rightarrow> JenkinsManager \<Rightarrow> string \<Rightarrow> (string \<rightharpoonup> json) \<Rightarrow> string io" where
  "call_tool_body E mgr name arguments =
     (if name = ''test_connection'' then tool_test_connection E mgr
      else if name = ''get_jobs'' then tool_get_jobs E mgr arguments
      else if name = ''get_job_info'' then tool_get_job_info E mgr arguments
      else if name = ''get_job_builds'' then tool_get_job_builds E mgr arguments
      else if name = ''get_build_console'' then tool_get_build_console E mgr arguments
      else if name = ''trigger_build'' then tool_trigger_build E mgr arguments
      else if name = ''get_failed_jobs'' then tool_get_failed_jobs E mgr
      else pure_io (Inr (e_cross @ '' Herramienta desconocida: '' @ name)))"

text \<open>The \<^verbatim>\<open>except Exception\<close> clause of \<^verbatim>\<open>call_tool\<close>.\<close>

definition tool_error_text :: "exn \<Rightarrow> string" where
  "tool_error_text e =
     (let error_msg = str_exn e;
          error_msg = (if sublist ''Timeout'' error_msg then error_msg @ vpn_hint else error_msg)
      in failure_marker @ error_msg)"

definition call_tool ::
  "env \<Rightarrow> JenkinsManager \<Rightarrow> string \<Rightarrow> (string \<rightharpoonup> json) \<Rightarrow> text_content list \<times> request list"
  where
  "call_tool E mgr name arguments =
     (case call_tool_body E mgr name arguments of
        (Inr t, log) \<Rightarrow> ([TextContent t], log)
      | (Inl e, log) \<Rightarrow> ([TextContent (tool_error_text e)], log))"

section \<open>The properties, in the words of the specification\<close>

text \<open>The last \<open>n\<close> items of a list, in their order.\<close>

definition last_n :: "nat \<Rightarrow> 'a list \<Rightarrow> 'a list" where
  "last_n n xs = drop (length xs - n) xs"

text \<open>A job is failed iff its color is \<^verbatim>\<open>red\<close> or \<^verbatim>\<open>red_anime\<close>, or its last build is
  present and the result of that build is \<^verbatim>\<open>FAILURE\<close>.\<close>

definition last_build_result :: "JenkinsJob \<Rightarrow> json option" where
  "last_build_result job =
     (case j_last_build job of JObj kvs \<Rightarrow> map_of kvs ''result'' | _ \<Rightarrow> None)"

definition is_failed :: "JenkinsJob \<Rightarrow> bool" where
  "is_failed job =
     (j_color job = JStr ''red'' \<or> j_color job = JStr ''red_anime''
      \<or> last_build_result job = Some (JStr ''FAILURE''))"

text \<open>The last build of a job is absent (\<^verbatim>\<open>None\<close>) or a dict, as the dataclass
  declares it (\<^verbatim>\<open>Optional[Dict]\<close>).\<close>

definition last_build_declared :: "JenkinsJob \<Rightarrow> bool" where
  "last_build_declared job =
     (case j_last_build job of JNull \<Rightarrow> True | JObj kvs \<Rightarrow> True | _ \<Rightarrow> False)"

text \<open>The name of a job is a string, as the dataclass declares it.\<close>

definition name_declared :: "JenkinsJob \<Rightarrow> bool" where
  "name_declared job = (case j_name job of JStr s \<Rightarrow> True | _ \<Rightarrow> False)"

definition name_str :: "JenkinsJob \<Rightarrow> string" where
  "name_str job = (case j_name job of JStr s \<Rightarrow> s | _ \<Rightarrow> [])"

text \<open>\<open>s\<close> contains \<open>f\<close> as a substring when case is ignored: the lower-cased \<open>f\<close>
  occurs in the lower-cased \<open>s\<close>.\<close>

definition contains_ci :: "env \<Rightarrow> string \<Rightarrow> string \<Rightarrow> bool" where
  "contains_ci E f s = sublist (str_lower E f) (str_lower E s)"

text \<open>The value a field of a build takes: the one the server sent, or the default when the
  key is missing.\<close>

definition field_or :: "(string \<times> json) list \<Rightarrow> string \<Rightarrow> json \<Rightarrow> json" where
  "field_or kvs k d = (case map_of kvs k of None \<Rightarrow> d | Some v \<Rightarrow> v)"

text \<open>The texts the dispatcher answers when a required argument is missing.\<close>

definition validation_texts :: "string set" where
  "validation_texts = {msg_requires_job_name, msg_requires_job_and_build}"

text \<open>The requests of the client, by endpoint.\<close>

definition get_request :: "JenkinsManager \<Rightarrow> string \<Rightarrow> request" where
  "get_request self path =
     \<lparr>req_method = GET, req_url = jenkins_url self @ path,
      req_headers = headers self, req_data = None\<rparr>"


definition console_path :: "env \<Rightarrow> json \<Rightarrow> json \<Rightarrow> string" where
  "console_path E job_name build_number =
     ''/job/'' @ fmt E job_name @ ''/'' @ fmt E build_number @ ''/consoleText''"

definition builds_path :: "env \<Rightarrow> json \<Rightarrow> json \<Rightarrow> string" where
  "builds_path E job_name limit =
     ''/job/'' @ fmt E job_name
       @ ''/api/json?tree=builds[number,url,result,building,duration,timestamp]{0,''
       @ fmt E limit @ ''}''"

definition is_2xx :: "response \<Rightarrow> bool" where
  "is_2xx r = (200 \<le> status_code r \<and> status_code r < 300)"

section \<open>An instance of the environment\<close>

text \<open>
  A concrete environment, on which the definitions above compute: lower-casing of the ASCII
  letters, the serialiser \<^verbatim>\<open>json.dumps\<close> with \<^verbatim>\<open>indent=2\<close>, the \<^verbatim>\<open>repr\<close> of lists and
  dicts, and the local time of a process whose time zone is UTC. The server is a parameter.
\<close>

definition ascii_lower_char :: "char \<Rightarrow> char" where
  "ascii_lower_char c =
     (let n = (of_char c :: nat) in if 65 \<le> n \<and> n \<le> 90 then char_of (n + 32) else c)"

definition ascii_lower :: "string \<Rightarrow> string" where
  "ascii_lower s = map ascii_lower_char s"

definition hex_digit :: "nat \<Rightarrow> char" where
  "hex_digit d = (if d < 10 then char_of (48 + d) else char_of (87 + d))"

definition hex2 :: "nat \<Rightarrow> string" where
  "hex2 n = [hex_digit (n div 16 mod 16), hex_digit (n mod 16)]"

definition hex4 :: "nat \<Rightarrow> string" where
  "hex4 n = hex2 (n div 256) @ hex2 (n mod 256)"

text \<open>The code points of a UTF-8 string.\<close>

fun utf8_decode :: "string \<Rightarrow> nat list" where
  "utf8_decode [] = []"
| "utf8_decode [a] = [of_char a]"
| "utf8_decode [a, b] =
     (if (of_char a :: nat) < 0x80 then of_char a # utf8_decode [b]
      else [((of_char a - 0xC0) * 64 + (of_char b - 0x80))])"
| "utf8_decode [a, b, c] =
     (if (of_char a :: nat) < 0x80 then of_char a # utf8_decode [b, c]
      else if (of_char a :: nat) < 0xE0
      then ((of_char a - 0xC0) * 64 + (of_char b - 0x80)) # utf8_decode [c]
      else [((of_char a - 0xE0) * 4096 + (of_char b - 0x80) * 64 + (of_char c - 0x80))])"
| "utf8_decode (a # b # c # d # r) =
     (if (of_char a :: nat) < 0x80 then of_char a # utf8_decode (b # c # d # r)
      else if (of_char a :: nat) < 0xE0
      then ((of_char a - 0xC0) * 64 + (of_char b - 0x80)) # utf8_decode (c # d # r)
      else if (of_char a :: nat) < 0xF0
      then ((of_char a - 0xE0) * 4096 + (of_char b - 0x80) * 64 + (of_char c - 0x80))
             # utf8_decode (d # r)
      else ((of_char a - 0xF0) * 262144 + (of_char b - 0x80) * 4096
              + (of_char c - 0x80) * 64 + (of_char d - 0x80)) # utf8_decode r)"

text \<open>The escapes of \<^verbatim>\<open>json.dumps\<close>.\<close>

definition json_escape_low :: "nat \<Rightarrow> string" where
  "json_escape_low n =
     (if n = 0x22 then [CHR 0x5C, CHR 0x22]
      else if n = 0x5C then [CHR 0x5C, CHR 0x5C]
      else if n = 0x0A then [CHR 0x5C, CHR ''n'']
      else if n = 0x0D then [CHR 0x5C, CHR ''r'']
      else if n = 0x09 then [CHR 0x5C, CHR ''t'']
      else if n = 0x08 then [CHR 0x5C, CHR ''b'']
      else if n = 0x0C then [CHR 0x5C, CHR ''f'']
      else if n < 0x20 then [CHR 0x5C, CHR ''u''] @ hex4 n
      else [char_of n])"

definition json_escape_ascii :: "nat \<Rightarrow> string" where
  "json_escape_ascii n =
     (if n < 0x7F then json_escape_low n
      else if n < 0x10000 then [CHR 0x5C, CHR ''u''] @ hex4 n
      else [CHR 0x5C, CHR ''u''] @ hex4 (0xD800 + (n - 0x10000) div 1024)
           @ [CHR 0x5C, CHR ''u''] @ hex4 (0xDC00 + (n - 0x10000) mod 1024))"

definition json_string :: "bool \<Rightarrow> string \<Rightarrow> string" where
  "json_string ensure_ascii s =
     [CHR 0x22]
     @ (if ensure_ascii then concat (map json_escape_ascii (utf8_decode s))
        else concat (map (\<lambda>c. if (of_char c :: nat) < 0x80 then json_escape_low (of_char c)
                                else [c]) s))
     @ [CHR 0x22]"

fun join_with :: "string \<Rightarrow> string list \<Rightarrow> string" where
  "join_with sep [] = []"
| "join_with sep [x] = x"
| "join_with sep (x # y # ys) = x @ sep @ join_with sep (y # ys)"

definition pad :: "nat \<Rightarrow> string" where
  "pad level = replicate (2 * level) CHR '' ''"

fun dumps_at :: "bool \<Rightarrow> nat \<Rightarrow> json \<Rightarrow> string" where
  "dumps_at a level JNull = ''null''"
| "dumps_at a level (JBool b) = (if b then ''true'' else ''false'')"
| "dumps_at a level (JInt i) = str_int i"
| "dumps_at a level (JStr s) = json_string a s"
| "dumps_at a level (JList xs) =
     (if xs = [] then ''[]''
      else ''['' @ nl
           @ join_with ('','' @ nl) (map (\<lambda>x. pad (Suc level) @ dumps_at a (Suc level) x) xs)
           @ nl @ pad level @ '']'')"
| "dumps_at a level (JObj kvs) =
     (if kvs = [] then ''{}''
      else ''{'' @ nl
           @ join_with ('','' @ nl)
               (map (\<lambda>kv. pad (Suc level) @ json_string a (fst kv) @ '': ''
                       @ dumps_at a (Suc level) (snd kv)) kvs)
           @ nl @ pad level @ ''}'')"

definition py_json_dumps :: "bool \<Rightarrow> json \<Rightarrow> string" where
  "py_json_dumps ensure_ascii v = dumps_at ensure_ascii 0 v"

text \<open>\<^verbatim>\<open>repr\<close>: a string is put in single quotes, or in double quotes when it holds a
  single quote and no double quote.\<close>

definition repr_escape :: "char \<Rightarrow> char \<Rightarrow> string" where
  "repr_escape q c =
     (let n = (of_char c :: nat) in
      if c = q \<or> n = 0x5C then [CHR 0x5C, c]
      else if n = 0x0A then [CHR 0x5C, CHR ''n'']
      else if n = 0x0D then [CHR 0x5C, CHR ''r'']
      else if n = 0x09 then [CHR 0x5C, CHR ''t'']
      else if n < 0x20 \<or> n = 0x7F then [CHR 0x5C, CHR ''x''] @ hex2 n
      else [c])"

definition repr_str :: "string \<Rightarrow> string" where
  "repr_str s =
     (let q = (if CHR 0x27 \<in> set s \<and> CHR 0x22 \<notin> set s then CHR 0x22 else CHR 0x27)
      in [q] @ concat (map (repr_escape q) s) @ [q])"

fun repr_json :: "json \<Rightarrow> string" where
  "repr_json JNull = ''None''"
| "repr_json (JBool b) = (if b then ''True'' else ''False'')"
| "repr_json (JInt i) = str_int i"
| "repr_json (JStr s) = repr_str s"
| "repr_json (JList xs) = ''['' @ join_with '', '' (map repr_json xs) @ '']''"
| "repr_json (JObj kvs) =
     ''{'' @ join_with '', '' (map (\<lambda>kv. repr_str (fst kv) @ '': '' @ repr_json (snd kv)) kvs)
       @ ''}''"

text \<open>\<^verbatim>\<open>datetime.fromtimestamp(t / 1000).strftime('%Y-%m-%d %H:%M')\<close> in the time zone UTC:
  the date of a day number counted from 1970-01-01, then the hour and the minute.\<close>

definition civil_from_days :: "int \<Rightarrow> int \<times> int \<times> int" where
  "civil_from_days days =
     (let z = days + 719468;
          era = z div 146097;
          doe = z - era * 146097;
          yoe = (doe - doe div 1460 + doe div 36524 - doe div 146096) div 365;
          doy = doe - (365 * yoe + yoe div 4 - yoe div 100);
          mp = (5 * doy + 2) div 153;
          d = doy - (153 * mp + 2) div 5 + 1;
          m = (if mp < 10 then mp + 3 else mp - 9);
          y = yoe + era * 400 + (if m \<le> 2 then 1 else 0)
      in (y, m, d))"

definition pad2 :: "int \<Rightarrow> string" where
  "pad2 n = (if n < 10 then CHR ''0'' # str_int n else str_int n)"

definition utc_minutes :: "int \<Rightarrow> exn + string" where
  "utc_minutes t =
     (let secs = t div 1000;
          rest = secs mod 86400
      in case civil_from_days (secs div 86400) of
           (y, m, d) \<Rightarrow>
             if y < 1 \<or> 9999 < y
             then Inl (ValueError (''year '' @ str_int y @ '' is out of range''))
             else Inr (str_int y @ ''-'' @ pad2 m @ ''-'' @ pad2 d @ '' ''
                       @ pad2 (rest div 3600) @ '':'' @ pad2 (rest mod 3600 div 60)))"

fun utc_format_timestamp :: "json \<Rightarrow> exn + string" where
  "utc_format_timestamp (JInt t) = utc_minutes t"
| "utc_format_timestamp (JBool b) = utc_minutes (if b then 1 else 0)"
| "utc_format_timestamp v = Inl (TypeError (''unsupported operand type(s) for /: ''
       @ quoted (type_name v) @ '' and '' @ quoted ''int''))"

definition demo_env :: "(request \<Rightarrow> exn + response) \<Rightarrow> env" where
  "demo_env server =
     \<lparr>http_send = server,
      status_error_message = (\<lambda>r. ''HTTP status '' @ str_int (status_code r)),
      str_lower = ascii_lower,
      py_repr = repr_json,
      json_dumps = py_json_dumps,
      format_timestamp = utc_format_timestamp,
      JENKINS_URL = ''https://jenkins.example/''\<rparr>"

definition demo_mgr :: JenkinsManager where
  "demo_mgr =
     \<lparr>jenkins_url = ''https://jenkins.example'',
      headers = [(''Authorization'', ''Basic Y2k6dG9rZW4=''),
                 (''Content-Type'', ''application/json'')]\<rparr>"

text \<open>Responses of a server: one with a JSON body, one with a plain text body.\<close>

definition json_response :: "int \<Rightarrow> json \<Rightarrow> response" where
  "json_response st v =
     \<lparr>status_code = st, resp_text = py_json_dumps False v, resp_json = Inr v\<rparr>"

definition text_response :: "int \<Rightarrow> string \<Rightarrow> response" where
  "text_response st t =
     \<lparr>status_code = st, resp_text = t,
      resp_json = Inl (JSONDecodeError ''Expecting value: line 1 column 1 (char 0)'')\<rparr>"

text \<open>A server that gives every request the same answer.\<close>

definition const_server :: "response \<Rightarrow> request \<Rightarrow> exn + response" where
  "const_server r rq = Inr r"

definition failing_server :: "exn \<Rightarrow> request \<Rightarrow> exn + response" where
  "failing_server e rq = Inl e"

definition demo_log :: string where
  "demo_log =
     ''Started by user ci'' @ nl @ ''Building in workspace'' @ nl @ ''Finished: SUCCESS''"



text \<open>The answer of the root endpoint of the server, and a list of builds in which the
  second build is running and the third has no field at all.\<close>

definition demo_server_info :: json where
  "demo_server_info = JObj [(''mode'', JStr ''NORMAL''), (''version'', JStr ''2.440.1'')]"

definition demo_builds :: "(string \<times> json) list list" where
  "demo_builds =
     [[(''number'', JInt 12), (''url'', JStr ''https://jenkins.example/job/nightly-build-1/12/''),
       (''result'', JStr ''SUCCESS''), (''building'', JBool False),
       (''duration'', JInt 125000), (''timestamp'', JInt 1700000000000)],
      [(''number'', JInt 13), (''result'', JNull), (''building'', JBool True)],
      []]"

definition demo_builds_json :: json where
  "demo_builds_json = JObj [(''builds'', JList (map JObj demo_builds))]"

text \<open>A server that starts a build: 201 for a POST to one of the two build endpoints of the
  job \<^verbatim>\<open>nightly-build-1\<close>, 404 for every other request.\<close>

definition build_server :: "request \<Rightarrow> exn + response" where
  "build_server rq =
     (if req_method rq = POST
         \<and> req_url rq \<in> {''https://jenkins.example/job/nightly-build-1/build'',
                          ''https://jenkins.example/job/nightly-build-1/buildWithParameters''}
      then Inr (text_response 201 [])
      else Inr (text_response 404 ''Not Found''))"


text \<open>A list of jobs as the server reports it: a passing job, a red job, a job that is not red
  but whose last build failed, and a job that was never built. The third job leaves out
  \<^verbatim>\<open>url\<close> and \<^verbatim>\<open>buildable\<close>.\<close>

definition demo_jobs_json :: json where
  "demo_jobs_json =
     JObj [(''jobs'', JList
       [JObj [(''name'', JStr ''nightly-build-1''),
              (''url'', JStr ''https://jenkins.example/job/nightly-build-1/''),
              (''color'', JStr ''blue''), (''buildable'', JBool True),
              (''lastBuild'', JObj [(''number'', JInt 12), (''result'', JStr ''SUCCESS'')])],
        JObj [(''name'', JStr ''deploy-prod''),
              (''url'', JStr ''https://jenkins.example/job/deploy-prod/''),
              (''color'', JStr ''red''), (''buildable'', JBool True),
              (''lastBuild'', JObj [(''number'', JInt 3), (''result'', JStr ''FAILURE'')])],
        JObj [(''name'', JStr ''Docs-BUILD''),
              (''color'', JStr ''aborted''),
              (''lastBuild'', JObj [(''number'', JInt 8), (''result'', JStr ''FAILURE'')])],
        JObj [(''name'', JStr ''fresh-job''),
              (''url'', JStr ''https://jenkins.example/job/fresh-job/''),
              (''color'', JStr ''notbuilt''), (''buildable'', JBool True),
              (''lastBuild'', JNull)]])]"

definition job_nightly :: JenkinsJob where
  "job_nightly =
     \<lparr>j_name = JStr ''nightly-build-1'',
      j_url = JStr ''https://jenkins.example/job/nightly-build-1/'',
      j_color = JStr ''blue'', j_buildable = JBool True,
      j_last_build = JObj [(''number'', JInt 12), (''result'', JStr ''SUCCESS'')]\<rparr>"

definition job_deploy :: JenkinsJob where
  "job_deploy =
     \<lparr>j_name = JStr ''deploy-prod'',
      j_url = JStr ''https://jenkins.example/job/deploy-prod/'',
      j_color = JStr ''red'', j_buildable = JBool True,
      j_last_build = JObj [(''number'', JInt 3), (''result'', JStr ''FAILURE'')]\<rparr>"

definition job_docs :: JenkinsJob where
  "job_docs =
     \<lparr>j_name = JStr ''Docs-BUILD'', j_url = JStr [],
      j_color = JStr ''aborted'', j_buildable = JBool False,
      j_last_build = JObj [(''number'', JInt 8), (''result'', JStr ''FAILURE'')]\<rparr>"

definition job_fresh :: JenkinsJob where
  "job_fresh =
     \<lparr>j_name = JStr ''fresh-job'',
      j_url = JStr ''https://jenkins.example/job/fresh-job/'',
      j_color = JStr ''notbuilt'', j_buildable = JBool True,
      j_last_build = JNull\<rparr>"

definition jobs_server :: "request \<Rightarrow> exn + response" where
  "jobs_server = const_server (json_response 200 demo_jobs_json)"

section \<open>Lines of a text\<close>

lemma split_lines_not_Nil: "split_lines s \<noteq> []"
  by (induction s) (auto split: list.splits)

lemma join_lines_Cons_char: "join_lines ((c # l) # ls) = c # join_lines (l # ls)"
  by (cases ls) simp_all

lemma join_split_lines: "join_lines (split_lines s) = s"
proof (induction s)
  case Nil
  then show ?case by simp
next
  case (Cons c cs)
  obtain l ls where sp: "split_lines cs = l # ls"
    using split_lines_not_Nil [of cs] by (cases "split_lines cs") auto
  show ?case
  proof (cases "c = newline")
    case True
    then show ?thesis using Cons sp by simp
  next
    case False
    then show ?thesis using Cons sp by (simp add: join_lines_Cons_char)
  qed
qed












section \<open>The console log\<close>

lemma get_build_console_sent:
  assumes "http_send E (get_request self (console_path E j b)) = Inr r" and "is_2xx r"
  shows "get_build_console E self j b lines =
           (tail_lines lines (resp_text r), [get_request self (console_path E j b)])"
  using assms
  by (simp add: get_build_console_def http_get_def send_def bind_io_def pure_io_def
      get_request_def console_path_def raise_for_status_def is_2xx_def bind_e_def)

lemma str_int_7: "str_int 7 = ''7''"
  by code_simp

lemma demo_console_path:
  "console_path E (JStr ''nightly-build-1'') (JInt 7) = ''/job/nightly-build-1/7/consoleText''"
  by (simp add: console_path_def str_int_7)

text \<open>The lines of a text are the pieces between its newline characters: a text that ends
  with a newline character has an empty last line.\<close>

lemma split_lines_trailing_newline: "split_lines (s @ [newline]) = split_lines s @ [[]]"
proof (induction s)
  case Nil
  then show ?case by simp
next
  case (Cons c cs)
  obtain l ls where "split_lines cs = l # ls"
    using split_lines_not_Nil [of cs] by (cases "split_lines cs") auto
  with Cons show ?case by simp
qed



text \<open>
  C10. With \<open>lines = 0\<close> the slice \<^verbatim>\<open>lines_list[-0:]\<close> is the whole list:
  \<^verbatim>\<open>get_build_console\<close> returns the entire console text, which is not the (empty) text of
  the last 0 lines unless the console text is empty.
\<close>

theorem console_tail_zero:
  assumes "http_send E (get_request self (console_path E job_name build_number)) = Inr r"
    and "is_2xx r"
  shows "get_build_console E self job_name build_number (JInt 0) =
           (Inr (resp_text r), [get_request self (console_path E job_name build_number)])
         \<and> slice_from (- 0) (split_lines (resp_text r)) = split_lines (resp_text r)
         \<and> (resp_text r \<noteq> [] \<longrightarrow>
              fst (get_build_console E self job_name build_number (JInt 0))
                \<noteq> Inr (join_lines (last_n 0 (split_lines (resp_text r)))))"
  using get_build_console_sent [OF assms(1,2)]
  by (simp add: tail_lines_def bind_e_def slice_from_def join_split_lines last_n_def)

theorem console_tail_zero_witness:
  "get_build_console (demo_env (const_server (text_response 200 demo_log))) demo_mgr
       (JStr ''nightly-build-1'') (JInt 7) (JInt 0)
     = (Inr demo_log, [get_request demo_mgr ''/job/nightly-build-1/7/consoleText''])
   \<and> demo_log \<noteq> []"
proof -
  have sent: "http_send (demo_env (const_server (text_response 200 demo_log)))
      (get_request demo_mgr (console_path (demo_env (const_server (text_response 200 demo_log)))
         (JStr ''nightly-build-1'') (JInt 7))) = Inr (text_response 200 demo_log)"
    by (simp add: demo_env_def const_server_def)
  have ok: "is_2xx (text_response 200 demo_log)"
    by (simp add: is_2xx_def text_response_def)
  show ?thesis
    using console_tail_zero [OF sent ok]
    by (simp add: demo_console_path text_response_def demo_log_def)
qed

section \<open>The connection test\<close>

lemma test_connection_raised:
  "http_send E (get_request self ''/api/json'') = Inl e \<Longrightarrow>
   test_connection E self = (Inl (test_connection_handler e), [get_request self ''/api/json''])"
  by (simp add: test_connection_def http_get_def send_def bind_io_def get_request_def)

lemma test_connection_answered:
  "http_send E (get_request self ''/api/json'') = Inr r \<Longrightarrow>
   test_connection E self =
     (case checked_json E r of Inl e \<Rightarrow> Inl (test_connection_handler e) | Inr v \<Rightarrow> Inr v,
      [get_request self ''/api/json''])"
  by (simp add: test_connection_def http_get_def send_def bind_io_def pure_io_def get_request_def
      split: sum.splits)

lemma checked_json_status:
  "\<not> is_2xx r \<Longrightarrow>
   checked_json E r = Inl (HTTPStatusError (status_code r) (status_error_message E r))"
  by (auto simp add: checked_json_def raise_for_status_def is_2xx_def bind_e_def)

lemma checked_json_ok: "is_2xx r \<Longrightarrow> checked_json E r = resp_json r"
  by (simp add: checked_json_def raise_for_status_def is_2xx_def bind_e_def)

lemma vpn_in_msg_connect_timeout: "sublist ''VPN'' msg_connect_timeout"
  by code_simp

lemma str_int_500: "str_int 500 = ''500''"
  by code_simp

text \<open>
  C7. \<^verbatim>\<open>test_connection\<close> fails with the connectivity message, which names the VPN, on a
  connect timeout; with the authentication message on status 401; with the permission message
  on status 403; with a message that holds the status code on every other status outside
  200..299; and on a status in 200..299 it returns the JSON value of the body.
\<close>

theorem test_connection_outcomes:
  "(http_send E (get_request self ''/api/json'') = Inl (ConnectTimeout m) \<longrightarrow>
      test_connection E self
        = (Inl (PyException msg_connect_timeout), [get_request self ''/api/json'']))
   \<and> sublist ''VPN'' msg_connect_timeout
   \<and> (http_send E (get_request self ''/api/json'') = Inr r \<and> status_code r = 401 \<longrightarrow>
      test_connection E self = (Inl (PyException msg_auth), [get_request self ''/api/json'']))
   \<and> (http_send E (get_request self ''/api/json'') = Inr r \<and> status_code r = 403 \<longrightarrow>
      test_connection E self
        = (Inl (PyException msg_forbidden), [get_request self ''/api/json'']))
   \<and> (http_send E (get_request self ''/api/json'') = Inr r \<and> \<not> is_2xx r
        \<and> status_code r \<noteq> 401 \<and> status_code r \<noteq> 403 \<longrightarrow>
      test_connection E self
        = (Inl (PyException (''Error HTTP '' @ str_int (status_code r))),
           [get_request self ''/api/json'']))
   \<and> (http_send E (get_request self ''/api/json'') = Inr r \<and> is_2xx r
        \<and> resp_json r = Inr v \<longrightarrow>
      test_connection E self = (Inr v, [get_request self ''/api/json'']))"
proof -
  have timeout: "http_send E (get_request self ''/api/json'') = Inl (ConnectTimeout m) \<longrightarrow>
      test_connection E self
        = (Inl (PyException msg_connect_timeout), [get_request self ''/api/json''])"
    by (simp add: test_connection_raised)
  have unauthorized: "http_send E (get_request self ''/api/json'') = Inr r \<and> status_code r = 401
      \<longrightarrow> test_connection E self
        = (Inl (PyException msg_auth), [get_request self ''/api/json''])"
    using checked_json_status [of r E] by (simp add: test_connection_answered is_2xx_def)
  have forbidden: "http_send E (get_request self ''/api/json'') = Inr r \<and> status_code r = 403
      \<longrightarrow> test_connection E self
        = (Inl (PyException msg_forbidden), [get_request self ''/api/json''])"
    using checked_json_status [of r E] by (simp add: test_connection_answered is_2xx_def)
  have other: "http_send E (get_request self ''/api/json'') = Inr r \<and> \<not> is_2xx r
        \<and> status_code r \<noteq> 401 \<and> status_code r \<noteq> 403 \<longrightarrow>
      test_connection E self
        = (Inl (PyException (''Error HTTP '' @ str_int (status_code r))),
           [get_request self ''/api/json''])"
    using checked_json_status [of r E] by (simp add: test_connection_answered)
  have ok: "http_send E (get_request self ''/api/json'') = Inr r \<and> is_2xx r
        \<and> resp_json r = Inr v \<longrightarrow>
      test_connection E self = (Inr v, [get_request self ''/api/json''])"
    using checked_json_ok [of r E] by (simp add: test_connection_answered)
  show ?thesis
    using timeout unauthorized forbidden other ok vpn_in_msg_connect_timeout by blast
qed

theorem test_connection_outcomes_witness:
  "test_connection (demo_env (failing_server (ConnectTimeout []))) demo_mgr
     = (Inl (PyException msg_connect_timeout), [get_request demo_mgr ''/api/json''])
   \<and> test_connection (demo_env (const_server (text_response 401 ''Unauthorized''))) demo_mgr
     = (Inl (PyException msg_auth), [get_request demo_mgr ''/api/json''])
   \<and> test_connection (demo_env (const_server (text_response 403 ''Forbidden''))) demo_mgr
     = (Inl (PyException msg_forbidden), [get_request demo_mgr ''/api/json''])
   \<and> test_connection (demo_env (const_server (text_response 500 ''Server Error''))) demo_mgr
     = (Inl (PyException ''Error HTTP 500''), [get_request demo_mgr ''/api/json''])
   \<and> test_connection (demo_env (const_server (json_response 200 demo_server_info))) demo_mgr
     = (Inr demo_server_info, [get_request demo_mgr ''/api/json''])"
  using test_connection_outcomes
          [of "demo_env (failing_server (ConnectTimeout []))" demo_mgr "[]"]
        test_connection_outcomes
          [of "demo_env (const_server (text_response 401 ''Unauthorized''))" demo_mgr _
              "text_response 401 ''Unauthorized''"]
        test_connection_outcomes
          [of "demo_env (const_server (text_response 403 ''Forbidden''))" demo_mgr _
              "text_response 403 ''Forbidden''"]
        test_connection_outcomes
          [of "demo_env (const_server (text_response 500 ''Server Error''))" demo_mgr _
              "text_response 500 ''Server Error''"]
        test_connection_outcomes
          [of "demo_env (const_server (json_response 200 demo_server_info))" demo_mgr _
              "json_response 200 demo_server_info" demo_server_info]
  by (simp add: demo_env_def const_server_def failing_server_def text_response_def
      json_response_def is_2xx_def str_int_500)

section \<open>The list of builds\<close>

lemma get_job_builds_sent:
  assumes "http_send E (get_request self (builds_path E j lim)) = Inr r" and "is_2xx r"
    and "resp_json r = Inr (JObj d)"
  shows "get_job_builds E self j lim =
           (bind_e (py_iter (field_or d ''builds'' (JList []))) (map_e build_of),
            [get_request self (builds_path E j lim)])"
  using assms
  by (simp add: get_job_builds_def http_get_def send_def bind_io_def pure_io_def
      get_request_def builds_path_def checked_json_ok bind_e_def field_or_def)

lemma build_of_dict:
  "build_of (JObj kvs) =
     Inr \<lparr>b_number = field_or kvs ''number'' (JInt 0),
          b_url = field_or kvs ''url'' (JStr []),
          b_result = field_or kvs ''result'' (JStr ''UNKNOWN''),
          b_building = field_or kvs ''building'' (JBool False),
          b_duration = field_or kvs ''duration'' (JInt 0),
          b_timestamp = field_or kvs ''timestamp'' (JInt 0)\<rparr>"
  by (simp add: build_of_def bind_e_def field_or_def)

lemma map_e_total: "\<forall>x\<in>set xs. f x = Inr (g x) \<Longrightarrow> map_e f xs = Inr (map g xs)"
  by (induction xs) (simp_all add: bind_e_def)

lemma field_or_missing: "map_of kvs k = None \<Longrightarrow> field_or kvs k d = d"
  by (simp add: field_or_def)

text \<open>
  C8. When the server answers with a JSON object whose \<^verbatim>\<open>builds\<close> is a list of objects,
  \<^verbatim>\<open>get_job_builds\<close> returns one record per object, in order, and in each record a missing
  \<^verbatim>\<open>number\<close>, \<^verbatim>\<open>duration\<close> or \<^verbatim>\<open>timestamp\<close> is 0, a missing \<^verbatim>\<open>building\<close> is false and a
  missing \<^verbatim>\<open>result\<close> is the string \<^verbatim>\<open>UNKNOWN\<close>, not \<^verbatim>\<open>None\<close>.
\<close>

theorem list_builds_defaults:
  assumes "http_send E (get_request self (builds_path E job_name limit)) = Inr r"
    and "is_2xx r"
    and "resp_json r = Inr (JObj d)"
    and "map_of d ''builds'' = Some (JList (map JObj bds))"
  shows "\<exists>builds.
           get_job_builds E self job_name limit
             = (Inr builds, [get_request self (builds_path E job_name limit)])
           \<and> length builds = length bds
           \<and> (\<forall>i<length bds.
                (map_of (bds ! i) ''number'' = None \<longrightarrow> b_number (builds ! i) = JInt 0)
                \<and> (map_of (bds ! i) ''duration'' = None \<longrightarrow> b_duration (builds ! i) = JInt 0)
                \<and> (map_of (bds ! i) ''timestamp'' = None \<longrightarrow> b_timestamp (builds ! i) = JInt 0)
                \<and> (map_of (bds ! i) ''building'' = None
                      \<longrightarrow> b_building (builds ! i) = JBool False)
                \<and> (map_of (bds ! i) ''result'' = None
                      \<longrightarrow> b_result (builds ! i) = JStr ''UNKNOWN''
                          \<and> b_result (builds ! i) \<noteq> JNull))"
proof -
  let ?rec = "\<lambda>kvs. \<lparr>b_number = field_or kvs ''number'' (JInt 0),
          b_url = field_or kvs ''url'' (JStr []),
          b_result = field_or kvs ''result'' (JStr ''UNKNOWN''),
          b_building = field_or kvs ''building'' (JBool False),
          b_duration = field_or kvs ''duration'' (JInt 0),
          b_timestamp = field_or kvs ''timestamp'' (JInt 0)\<rparr>"
  have "map_e build_of (map JObj bds) = Inr (map (\<lambda>v. case v of JObj kvs \<Rightarrow> ?rec kvs) (map JObj bds))"
    by (rule map_e_total) (auto simp add: build_of_dict)
  then have loop: "map_e build_of (map JObj bds) = Inr (map ?rec bds)"
    by (simp add: comp_def)
  have "get_job_builds E self job_name limit
          = (Inr (map ?rec bds), [get_request self (builds_path E job_name limit)])"
    using get_job_builds_sent [OF assms(1,2,3)] assms(4) loop
    by (simp add: field_or_def bind_e_def)
  then show ?thesis
    by (intro exI [of _ "map ?rec bds"]) (simp add: field_or_missing)
qed

lemma demo_builds_path:
  "builds_path E (JStr ''nightly-build-1'') (JInt 10)
     = ''/job/nightly-build-1/api/json?tree=builds[number,url,result,building,duration,timestamp]{0,10}''"
proof -
  have "str_int 10 = ''10''" by code_simp
  then show ?thesis by (simp add: builds_path_def)
qed

theorem list_builds_defaults_witness:
  "\<exists>builds.
     get_job_builds (demo_env (const_server (json_response 200 demo_builds_json))) demo_mgr
         (JStr ''nightly-build-1'') (JInt 10)
       = (Inr builds,
          [get_request demo_mgr
             ''/job/nightly-build-1/api/json?tree=builds[number,url,result,building,duration,timestamp]{0,10}''])
     \<and> length builds = 3
     \<and> b_result (builds ! 0) = JStr ''SUCCESS''
     \<and> b_result (builds ! 1) = JNull
     \<and> b_duration (builds ! 1) = JInt 0
     \<and> b_timestamp (builds ! 1) = JInt 0
     \<and> b_number (builds ! 2) = JInt 0
     \<and> b_building (builds ! 2) = JBool False
     \<and> b_result (builds ! 2) = JStr ''UNKNOWN''"
proof -
  let ?E = "demo_env (const_server (json_response 200 demo_builds_json))"
  have sent: "http_send ?E (get_request demo_mgr
      (builds_path ?E (JStr ''nightly-build-1'') (JInt 10)))
        = Inr (json_response 200 demo_builds_json)"
    by (simp add: demo_env_def const_server_def)
  have ok: "is_2xx (json_response 200 demo_builds_json)"
    by (simp add: is_2xx_def json_response_def)
  have body: "resp_json (json_response 200 demo_builds_json)
      = Inr (JObj [(''builds'', JList (map JObj demo_builds))])"
    by (simp add: json_response_def demo_builds_json_def)
  have key: "map_of [(''builds'', JList (map JObj demo_builds))] ''builds''
      = Some (JList (map JObj demo_builds))"
    by simp
  obtain builds where b:
    "get_job_builds ?E demo_mgr (JStr ''nightly-build-1'') (JInt 10)
       = (Inr builds, [get_request demo_mgr
            (builds_path ?E (JStr ''nightly-build-1'') (JInt 10))])"
    "length builds = length demo_builds"
    "\<forall>i<length demo_builds.
        (map_of (demo_builds ! i) ''number'' = None \<longrightarrow> b_number (builds ! i) = JInt 0)
        \<and> (map_of (demo_builds ! i) ''duration'' = None \<longrightarrow> b_duration (builds ! i) = JInt 0)
        \<and> (map_of (demo_builds ! i) ''timestamp'' = None \<longrightarrow> b_timestamp (builds ! i) = JInt 0)
        \<and> (map_of (demo_builds ! i) ''building'' = None
              \<longrightarrow> b_building (builds ! i) = JBool False)
        \<and> (map_of (demo_builds ! i) ''result'' = None
              \<longrightarrow> b_result (builds ! i) = JStr ''UNKNOWN''
                  \<and> b_result (builds ! i) \<noteq> JNull)"
    using list_builds_defaults [OF sent ok body key] by blast
  have len: "length demo_builds = 3"
    by (simp add: demo_builds_def)
  have fields: "b_result (builds ! 0) = JStr ''SUCCESS''" "b_result (builds ! 1) = JNull"
    using b(1)
    by (auto simp add: get_job_builds_sent [OF sent ok body] field_or_def bind_e_def
        demo_builds_def build_of_dict)
  have d1: "b_duration (builds ! 1) = JInt 0 \<and> b_timestamp (builds ! 1) = JInt 0"
    using b(3) len by (simp add: demo_builds_def)
  have d2: "b_number (builds ! 2) = JInt 0 \<and> b_building (builds ! 2) = JBool False
      \<and> b_result (builds ! 2) = JStr ''UNKNOWN''"
    using b(3) len by (simp add: demo_builds_def)
  show ?thesis
    using b(1,2) len fields d1 d2 by (intro exI [of _ builds]) (simp add: demo_builds_path)
qed

section \<open>Starting a build\<close>



lemma call_tool_log: "snd (call_tool E mgr name arguments) = snd (call_tool_body E mgr name arguments)"
  by (simp add: call_tool_def split: prod.splits sum.splits)

lemma snd_bind_pure: "snd (bind_io m (\<lambda>x. pure_io (f x))) = snd m"
  by (simp add: bind_io_def pure_io_def split: prod.splits sum.splits)




section \<open>Required arguments\<close>

lemma get_job_info_missing:
  "\<not> truthy (args_get arguments ''job_name'' JNull) \<Longrightarrow>
   call_tool E mgr ''get_job_info'' arguments = ([TextContent msg_requires_job_name], [])"
  by (simp add: call_tool_def call_tool_body_def tool_get_job_info_def pure_io_def)

lemma get_job_builds_missing:
  "\<not> truthy (args_get arguments ''job_name'' JNull) \<Longrightarrow>
   call_tool E mgr ''get_job_builds'' arguments = ([TextContent msg_requires_job_name], [])"
  by (simp add: call_tool_def call_tool_body_def tool_get_job_builds_def pure_io_def)

lemma trigger_build_missing:
  "\<not> truthy (args_get arguments ''job_name'' JNull) \<Longrightarrow>
   call_tool E mgr ''trigger_build'' arguments = ([TextContent msg_requires_job_name], [])"
  by (simp add: call_tool_def call_tool_body_def tool_trigger_build_def pure_io_def)

lemma get_build_console_missing:
  "\<not> truthy (args_get arguments ''job_name'' JNull)
     \<or> \<not> truthy (args_get arguments ''build_number'' JNull) \<Longrightarrow>
   call_tool E mgr ''get_build_console'' arguments
     = ([TextContent msg_requires_job_and_build], [])"
  by (auto simp add: call_tool_def call_tool_body_def tool_get_build_console_def pure_io_def)

lemma args_get_absent: "arguments k = None \<Longrightarrow> args_get arguments k d = d"
  by (simp add: args_get_def)

text \<open>
  C3. For every tool of the catalog and every argument its schema lists as required: when the
  argument is absent from the argument dict, \<^verbatim>\<open>call_tool\<close> answers one of the validation
  texts and issues no request.
\<close>

theorem missing_required_argument:
  "\<forall>t\<in>set list_tools. \<forall>a\<in>set (tool_required t).
     arguments a = None \<longrightarrow>
       (\<exists>msg\<in>validation_texts.
          call_tool E mgr (tool_name t) arguments = ([TextContent msg], []))"
proof -
  have info: "arguments ''job_name'' = None \<longrightarrow>
      call_tool E mgr ''get_job_info'' arguments = ([TextContent msg_requires_job_name], [])"
    by (simp add: get_job_info_missing args_get_absent)
  have builds: "arguments ''job_name'' = None \<longrightarrow>
      call_tool E mgr ''get_job_builds'' arguments = ([TextContent msg_requires_job_name], [])"
    by (simp add: get_job_builds_missing args_get_absent)
  have trigger: "arguments ''job_name'' = None \<longrightarrow>
      call_tool E mgr ''trigger_build'' arguments = ([TextContent msg_requires_job_name], [])"
    by (simp add: trigger_build_missing args_get_absent)
  have console: "arguments ''job_name'' = None \<or> arguments ''build_number'' = None \<longrightarrow>
      call_tool E mgr ''get_build_console'' arguments
        = ([TextContent msg_requires_job_and_build], [])"
    using get_build_console_missing [of arguments E mgr] by (auto simp add: args_get_absent)
  show ?thesis
    using info builds trigger console by (simp add: list_tools_def validation_texts_def)
qed

theorem missing_required_argument_witness:
  "call_tool (demo_env build_server) demo_mgr ''get_job_info'' Map.empty
     = ([TextContent msg_requires_job_name], [])
   \<and> call_tool (demo_env build_server) demo_mgr ''get_build_console''
        [''job_name'' \<mapsto> JStr ''nightly-build-1'']
     = ([TextContent msg_requires_job_and_build], [])
   \<and> msg_requires_job_name \<noteq> msg_requires_job_and_build"
proof -
  have t1: "\<lparr>tool_name = ''get_job_info'', tool_properties = [(''job_name'', ''string'')],
        tool_required = [''job_name'']\<rparr> \<in> set list_tools"
    by (simp add: list_tools_def)
  have t2: "\<lparr>tool_name = ''get_build_console'',
        tool_properties = [(''job_name'', ''string''), (''build_number'', ''integer''),
          (''lines'', ''integer'')],
        tool_required = [''job_name'', ''build_number'']\<rparr> \<in> set list_tools"
    by (simp add: list_tools_def)
  have distinct: "msg_requires_job_name \<noteq> msg_requires_job_and_build"
    by (simp add: msg_requires_job_name_def msg_requires_job_and_build_def)
  have c1: "\<exists>msg\<in>validation_texts.
      call_tool (demo_env build_server) demo_mgr ''get_job_info'' Map.empty
        = ([TextContent msg], [])"
    using bspec [OF bspec [OF missing_required_argument
        [of Map.empty "demo_env build_server" demo_mgr] t1], of "''job_name''"]
    by simp
  have c2: "\<exists>msg\<in>validation_texts.
      call_tool (demo_env build_server) demo_mgr ''get_build_console''
        [''job_name'' \<mapsto> JStr ''nightly-build-1''] = ([TextContent msg], [])"
    using bspec [OF bspec [OF missing_required_argument
        [of "[''job_name'' \<mapsto> JStr ''nightly-build-1'']" "demo_env build_server" demo_mgr]
        t2], of "''build_number''"]
    by simp
  have e1: "call_tool (demo_env build_server) demo_mgr ''get_job_info'' Map.empty
      \<noteq> ([TextContent msg_requires_job_and_build], [])"
    using distinct by (simp add: get_job_info_missing args_get_def)
  have e2: "call_tool (demo_env build_server) demo_mgr ''get_build_console''
        [''job_name'' \<mapsto> JStr ''nightly-build-1'']
      \<noteq> ([TextContent msg_requires_job_name], [])"
    using distinct by (simp add: get_build_console_missing args_get_def)
  show ?thesis
    using c1 c2 e1 e2 distinct by (auto simp add: validation_texts_def)
qed

text \<open>
  C9. For \<^verbatim>\<open>get_build_console\<close> a \<^verbatim>\<open>build_number\<close> equal to 0 has the truth value false,
  so \<^verbatim>\<open>all([job_name, build_number])\<close> fails as it does for an absent \<^verbatim>\<open>build_number\<close>:
  the answer is the same validation text, and no request is issued.
\<close>

theorem build_number_zero_is_missing:
  "call_tool E mgr ''get_build_console'' (arguments(''build_number'' \<mapsto> JInt 0))
     = ([TextContent msg_requires_job_and_build], [])
   \<and> call_tool E mgr ''get_build_console'' (arguments(''build_number'' \<mapsto> JInt 0))
     = call_tool E mgr ''get_build_console'' (arguments(''build_number'' := None))"
proof -
  have zero: "call_tool E mgr ''get_build_console'' (arguments(''build_number'' \<mapsto> JInt 0))
      = ([TextContent msg_requires_job_and_build], [])"
    by (rule get_build_console_missing) (simp add: args_get_def)
  have absent: "call_tool E mgr ''get_build_console'' (arguments(''build_number'' := None))
      = ([TextContent msg_requires_job_and_build], [])"
    by (rule get_build_console_missing) (simp add: args_get_def)
  show ?thesis
    using zero absent by simp
qed

theorem build_number_zero_is_missing_witness:
  "call_tool (demo_env (const_server (text_response 200 demo_log))) demo_mgr ''get_build_console''
       [''job_name'' \<mapsto> JStr ''nightly-build-1'', ''build_number'' \<mapsto> JInt 0]
     = ([TextContent msg_requires_job_and_build], [])
   \<and> snd (call_tool (demo_env (const_server (text_response 200 demo_log))) demo_mgr
            ''get_build_console''
            [''job_name'' \<mapsto> JStr ''nightly-build-1'', ''build_number'' \<mapsto> JInt 7])
     = [get_request demo_mgr ''/job/nightly-build-1/7/consoleText'']"
proof -
  have sent: "snd (call_tool (demo_env (const_server (text_response 200 demo_log))) demo_mgr
            ''get_build_console''
            [''job_name'' \<mapsto> JStr ''nightly-build-1'', ''build_number'' \<mapsto> JInt 7])
     = [get_request demo_mgr ''/job/nightly-build-1/7/consoleText'']"
    by (simp add: call_tool_log call_tool_body_def tool_get_build_console_def args_get_def
        snd_bind_pure Let_def get_build_console_def http_get_def send_def get_request_def
        str_int_7)
  show ?thesis
    using build_number_zero_is_missing
        [of "demo_env (const_server (text_response 200 demo_log))" demo_mgr
            "[''job_name'' \<mapsto> JStr ''nightly-build-1'']"] sent
    by simp
qed

section \<open>Errors at the boundary of the dispatcher\<close>

lemma call_tool_single_text: "\<exists>t l. call_tool E mgr name arguments = ([TextContent t], l)"
  by (simp add: call_tool_def split: prod.splits sum.splits)

lemma call_tool_raised:
  "call_tool_body E mgr name arguments = (Inl e, log) \<Longrightarrow>
   call_tool E mgr name arguments
     = ([TextContent (failure_marker @ str_exn e
           @ (if sublist ''Timeout'' (str_exn e) then vpn_hint else []))], log)"
  by (simp add: call_tool_def tool_error_text_def)

lemma read_resource_raised:
  "read_resource_body E mgr uri = (Inl e, log) \<Longrightarrow>
   read_resource E mgr uri = (json_dumps E True (JObj [(''error'', JStr (str_exn e))]), log)"
  by (simp add: read_resource_def)

lemma vpn_in_hint: "sublist ''VPN'' vpn_hint"
  by code_simp

lemma timeout_in_msg_connect_timeout: "sublist ''Timeout'' msg_connect_timeout"
  by code_simp

text \<open>
  C2, as the claim states it, fails for \<^verbatim>\<open>read_resource\<close>: reading the unknown resource
  \<^verbatim>\<open>jenkins://Timeout\<close> raises an error whose message contains \<^verbatim>\<open>Timeout\<close>, and the
  payload is the JSON dump of a dict with the key \<^verbatim>\<open>error\<close>; it does not start with the
  failure marker of \<^verbatim>\<open>call_tool\<close> and holds no hint about the VPN.
\<close>

theorem read_resource_timeout_counterexample:
  "read_resource_body (demo_env build_server) demo_mgr ''jenkins://Timeout''
     = (Inl (ValueError ''Recurso no encontrado: jenkins://Timeout''), [])
   \<and> sublist ''Timeout'' (str_exn (ValueError ''Recurso no encontrado: jenkins://Timeout''))
   \<and> fst (read_resource (demo_env build_server) demo_mgr ''jenkins://Timeout'')
     = ''{'' @ nl @ ''  '' @ [CHR 0x22] @ ''error'' @ [CHR 0x22] @ '': '' @ [CHR 0x22]
       @ ''Recurso no encontrado: jenkins://Timeout'' @ [CHR 0x22] @ nl @ ''}''
   \<and> \<not> prefix failure_marker
         (fst (read_resource (demo_env build_server) demo_mgr ''jenkins://Timeout''))
   \<and> \<not> sublist ''VPN''
         (fst (read_resource (demo_env build_server) demo_mgr ''jenkins://Timeout''))"
proof -
  have body: "read_resource_body (demo_env build_server) demo_mgr ''jenkins://Timeout''
     = (Inl (ValueError ''Recurso no encontrado: jenkins://Timeout''), [])"
    by (simp add: read_resource_body_def pure_io_def)
  have payload: "fst (read_resource (demo_env build_server) demo_mgr ''jenkins://Timeout'')
     = ''{'' @ nl @ ''  '' @ [CHR 0x22] @ ''error'' @ [CHR 0x22] @ '': '' @ [CHR 0x22]
       @ ''Recurso no encontrado: jenkins://Timeout'' @ [CHR 0x22] @ nl @ ''}''"
    unfolding read_resource_raised [OF body] by code_simp
  have timeout: "sublist ''Timeout'' (str_exn (ValueError ''Recurso no encontrado: jenkins://Timeout''))"
    by code_simp
  have marker: "\<not> prefix failure_marker
      (''{'' @ nl @ ''  '' @ [CHR 0x22] @ ''error'' @ [CHR 0x22] @ '': '' @ [CHR 0x22]
       @ ''Recurso no encontrado: jenkins://Timeout'' @ [CHR 0x22] @ nl @ ''}'')"
    by code_simp
  have hint: "\<not> sublist ''VPN''
      (''{'' @ nl @ ''  '' @ [CHR 0x22] @ ''error'' @ [CHR 0x22] @ '': '' @ [CHR 0x22]
       @ ''Recurso no encontrado: jenkins://Timeout'' @ [CHR 0x22] @ nl @ ''}'')"
    by code_simp
  show ?thesis
    using body payload timeout marker hint by simp
qed

text \<open>
  C2, amended. No error passes the boundary of the dispatcher. For every tool name, argument
  dict and error raised below it, \<^verbatim>\<open>call_tool\<close> returns a single text that starts with the
  failure marker and continues with the message of the error, followed by the hint about the
  VPN when the message contains \<^verbatim>\<open>Timeout\<close>. For every URI and error raised below it,
  \<^verbatim>\<open>read_resource\<close> returns the JSON dump of a dict whose only key \<^verbatim>\<open>error\<close> holds the
  message of the error.
\<close>

theorem dispatcher_error_payloads:
  "(call_tool_body E mgr name arguments = (Inl e, log) \<longrightarrow>
      call_tool E mgr name arguments
        = ([TextContent (failure_marker @ str_exn e
              @ (if sublist ''Timeout'' (str_exn e) then vpn_hint else []))], log))
   \<and> (\<exists>t l. call_tool E mgr name arguments = ([TextContent t], l))
   \<and> sublist ''VPN'' vpn_hint
   \<and> (read_resource_body E mgr uri = (Inl e', log') \<longrightarrow>
      read_resource E mgr uri
        = (json_dumps E True (JObj [(''error'', JStr (str_exn e'))]), log'))"
  using call_tool_raised [of E mgr name arguments e log] call_tool_single_text [of E mgr name arguments]
    read_resource_raised [of E mgr uri e' log'] vpn_in_hint
  by blast

theorem dispatcher_error_payloads_witness:
  "call_tool (demo_env (failing_server (ConnectTimeout ''timed out''))) demo_mgr
       ''test_connection'' Map.empty
     = ([TextContent (failure_marker @ msg_connect_timeout @ vpn_hint)],
        [get_request demo_mgr ''/api/json''])
   \<and> call_tool (demo_env (failing_server (ConnectTimeout ''timed out''))) demo_mgr
       ''get_failed_jobs'' Map.empty
     = ([TextContent (failure_marker @ ''timed out'')], [get_request demo_mgr jobs_tree])
   \<and> read_resource (demo_env (failing_server (ConnectTimeout ''timed out''))) demo_mgr
       ''jenkins://jobs''
     = (py_json_dumps True (JObj [(''error'', JStr ''timed out'')]),
        [get_request demo_mgr jobs_tree])"
proof -
  let ?E = "demo_env (failing_server (ConnectTimeout ''timed out''))"
  have raised: "http_send ?E rq = Inl (ConnectTimeout ''timed out'')" for rq
    by (simp add: demo_env_def failing_server_def)
  have b1: "call_tool_body ?E demo_mgr ''test_connection'' Map.empty
      = (Inl (PyException msg_connect_timeout), [get_request demo_mgr ''/api/json''])"
    by (simp add: call_tool_body_def tool_test_connection_def bind_io_def
        test_connection_raised [OF raised])
  have b2: "call_tool_body ?E demo_mgr ''get_failed_jobs'' Map.empty
      = (Inl (ConnectTimeout ''timed out''), [get_request demo_mgr jobs_tree])"
    by (simp add: call_tool_body_def tool_get_failed_jobs_def bind_io_def get_jobs_def
        http_get_def send_def raised get_request_def)
  have b3: "read_resource_body ?E demo_mgr ''jenkins://jobs''
      = (Inl (ConnectTimeout ''timed out''), [get_request demo_mgr jobs_tree])"
    by (simp add: read_resource_body_def bind_io_def get_jobs_def
        http_get_def send_def raised get_request_def)
  have no_timeout: "\<not> sublist ''Timeout'' ''timed out''"
    by code_simp
  have dumps: "json_dumps ?E = py_json_dumps"
    by (simp add: demo_env_def)
  show ?thesis
    using dispatcher_error_payloads [of ?E demo_mgr "''test_connection''" Map.empty
        "PyException msg_connect_timeout" "[get_request demo_mgr ''/api/json'']"]
      dispatcher_error_payloads [of ?E demo_mgr "''get_failed_jobs''" Map.empty
        "ConnectTimeout ''timed out''" "[get_request demo_mgr jobs_tree]"
        "''jenkins://jobs''" "ConnectTimeout ''timed out''" "[get_request demo_mgr jobs_tree]"]
      b1 b2 b3 no_timeout timeout_in_msg_connect_timeout dumps
    by simp
qed

section \<open>Failed jobs\<close>

lemma filter_e_total: "\<forall>x\<in>set xs. p x = Inr (q x) \<Longrightarrow> filter_e p xs = Inr (filter q xs)"
  by (induction xs) (simp_all add: bind_e_def)

lemma resource_cond_declared:
  "last_build_declared job \<Longrightarrow> resource_failed_cond job = Inr (is_failed job)"
  by (cases "j_last_build job")
     (auto simp add: last_build_declared_def resource_failed_cond_def is_failed_def
        last_build_result_def bind_e_def split: option.splits)

lemma failed_cond_same: "resource_failed_cond job = tool_failed_cond job"
  by (simp add: resource_failed_cond_def tool_failed_cond_def)

lemma failed_jobs_same: "resource_failed_jobs jobs = tool_failed_jobs jobs"
proof -
  have "resource_failed_cond = tool_failed_cond"
    by (rule ext) (rule failed_cond_same)
  then show ?thesis
    by (simp add: resource_failed_jobs_def tool_failed_jobs_def)
qed

lemma demo_get_jobs:
  "get_jobs (demo_env jobs_server) demo_mgr
     = (Inr [job_nightly, job_deploy, job_docs, job_fresh], [get_request demo_mgr jobs_tree])"
  by (simp add: get_jobs_def http_get_def send_def bind_io_def pure_io_def get_request_def
      demo_env_def jobs_server_def const_server_def json_response_def checked_json_def
      raise_for_status_def bind_e_def demo_jobs_json_def job_of_def
      job_nightly_def job_deploy_def job_docs_def job_fresh_def)

text \<open>
  C1. When the last build of every job is absent or a dict, the jobs shown by the resource
  \<^verbatim>\<open>jenkins://failed-jobs\<close> and the jobs shown by the tool \<^verbatim>\<open>get_failed_jobs\<close> are exactly the
  jobs whose color is \<^verbatim>\<open>red\<close> or \<^verbatim>\<open>red_anime\<close> or whose last build is present with the
  result \<^verbatim>\<open>FAILURE\<close>, in the order of the server. For every list of jobs whatever, the two
  selections are equal.
\<close>

theorem failed_jobs_rule:
  assumes "get_jobs E mgr = (Inr jobs, log)"
    and "\<forall>job\<in>set jobs. last_build_declared job"
  shows "read_resource E mgr ''jenkins://failed-jobs''
           = (json_dumps E False (JList (map failed_job_dict (filter is_failed jobs))), log)
         \<and> call_tool_body E mgr ''get_failed_jobs'' arguments
           = (render_failed_jobs E (filter is_failed jobs), log)
         \<and> resource_failed_jobs jobs = Inr (filter is_failed jobs)
         \<and> tool_failed_jobs jobs = Inr (filter is_failed jobs)
         \<and> (\<forall>js. resource_failed_jobs js = tool_failed_jobs js)"
proof -
  have res: "resource_failed_jobs jobs = Inr (filter is_failed jobs)"
    unfolding resource_failed_jobs_def
    by (rule filter_e_total) (simp add: assms(2) resource_cond_declared)
  then have tool: "tool_failed_jobs jobs = Inr (filter is_failed jobs)"
    by (simp add: failed_jobs_same)
  have read: "read_resource E mgr ''jenkins://failed-jobs''
      = (json_dumps E False (JList (map failed_job_dict (filter is_failed jobs))), log)"
    by (simp add: read_resource_def read_resource_body_def assms(1) bind_io_def pure_io_def
        res bind_e_def)
  have call: "call_tool_body E mgr ''get_failed_jobs'' arguments
      = (render_failed_jobs E (filter is_failed jobs), log)"
    by (simp add: call_tool_body_def tool_get_failed_jobs_def assms(1) bind_io_def pure_io_def
        tool bind_e_def)
  show ?thesis
    using res tool read call failed_jobs_same by blast
qed

theorem failed_jobs_rule_witness:
  "read_resource (demo_env jobs_server) demo_mgr ''jenkins://failed-jobs''
     = (py_json_dumps False (JList [failed_job_dict job_deploy, failed_job_dict job_docs]),
        [get_request demo_mgr jobs_tree])
   \<and> call_tool_body (demo_env jobs_server) demo_mgr ''get_failed_jobs'' Map.empty
     = (render_failed_jobs (demo_env jobs_server) [job_deploy, job_docs],
        [get_request demo_mgr jobs_tree])"
proof -
  have declared: "\<forall>job\<in>set [job_nightly, job_deploy, job_docs, job_fresh]. last_build_declared job"
    by (simp add: last_build_declared_def job_nightly_def job_deploy_def job_docs_def
        job_fresh_def)
  have sel: "filter is_failed [job_nightly, job_deploy, job_docs, job_fresh]
      = [job_deploy, job_docs]"
    by (simp add: is_failed_def last_build_result_def job_nightly_def job_deploy_def
        job_docs_def job_fresh_def)
  have dumps: "json_dumps (demo_env jobs_server) = py_json_dumps"
    by (simp add: demo_env_def)
  show ?thesis
    using failed_jobs_rule [OF demo_get_jobs declared, of Map.empty, unfolded sel]
    by (simp add: dumps)
qed

section \<open>The filter of the list of jobs\<close>

lemma name_matches_declared:
  "name_declared job \<Longrightarrow>
   name_matches E (str_lower E f) job = Inr (contains_ci E f (name_str job))"
  by (cases "j_name job")
     (simp_all add: name_declared_def name_matches_def py_lower_def contains_ci_def
        name_str_def bind_e_def)

lemma filter_jobs_declared:
  "\<forall>job\<in>set jobs. name_declared job \<Longrightarrow>
   filter_jobs E (str_lower E f) jobs
     = Inr (filter (\<lambda>job. contains_ci E f (name_str job)) jobs)"
proof (cases "str_lower E f = []")
  case True
  then show ?thesis
    by (simp add: filter_jobs_def contains_ci_def)
next
  case False
  assume "\<forall>job\<in>set jobs. name_declared job"
  then have "filter_e (name_matches E (str_lower E f)) jobs
      = Inr (filter (\<lambda>job. contains_ci E f (name_str job)) jobs)"
    by (intro filter_e_total) (simp add: name_matches_declared)
  with False show ?thesis
    by (simp add: filter_jobs_def)
qed

lemma get_jobs_tool_unfold:
  "get_jobs E mgr = (Inr jobs, log) \<Longrightarrow>
   call_tool_body E mgr ''get_jobs'' arguments
     = (bind_e (py_lower E (args_get arguments ''filter'' (JStr [])))
          (\<lambda>filter_name. bind_e (filter_jobs E filter_name jobs) (render_jobs E)),
        case py_lower E (args_get arguments ''filter'' (JStr [])) of
          Inl e \<Rightarrow> [] | Inr filter_name \<Rightarrow> log)"
  by (simp add: call_tool_body_def tool_get_jobs_def bind_io_def pure_io_def bind_e_def
      split: sum.splits)

text \<open>When lower-casing works character by character, as it does on ASCII text, the match
  is the usual one: some stretch of the name equals the filter up to case.\<close>

lemma sublist_map_iff:
  "sublist (map g f) (map g s) \<longleftrightarrow> (\<exists>pre mid post. s = pre @ mid @ post \<and> map g mid = map g f)"
proof
  assume "sublist (map g f) (map g s)"
  then obtain ps ss where "map g s = ps @ map g f @ ss"
    by (auto simp add: sublist_def)
  then obtain pre rest where s: "s = pre @ rest" and rest: "map g f @ ss = map g rest"
    using map_eq_append_conv [of g s ps "map g f @ ss"] by blast
  from rest obtain mid post where "rest = mid @ post" and "map g f = map g mid"
    using append_eq_map_conv [of "map g f" ss g rest] by blast
  with s show "\<exists>pre mid post. s = pre @ mid @ post \<and> map g mid = map g f"
    by metis
next
  assume "\<exists>pre mid post. s = pre @ mid @ post \<and> map g mid = map g f"
  then obtain pre mid post where "s = pre @ mid @ post" and "map g mid = map g f"
    by blast
  then have "map g s = map g pre @ map g f @ map g post"
    by simp
  then show "sublist (map g f) (map g s)"
    by (auto simp add: sublist_def)
qed

lemma contains_ci_charwise:
  "\<forall>s. str_lower E s = map g s \<Longrightarrow>
   contains_ci E f s \<longleftrightarrow> (\<exists>pre mid post. s = pre @ mid @ post \<and> map g mid = map g f)"
  by (simp add: contains_ci_def sublist_map_iff)

text \<open>
  C6. When the names of the jobs are strings, the tool \<^verbatim>\<open>get_jobs\<close> called with the filter
  \<open>f\<close> shows exactly the jobs whose name contains \<open>f\<close> when case is ignored, in the order
  of the server; called with no filter or with the empty filter it shows every job.
\<close>

theorem get_jobs_filter:
  assumes "get_jobs E mgr = (Inr jobs, log)"
  shows "(arguments ''filter'' = Some (JStr f) \<and> (\<forall>job\<in>set jobs. name_declared job) \<longrightarrow>
            call_tool_body E mgr ''get_jobs'' arguments
              = (render_jobs E (filter (\<lambda>job. contains_ci E f (name_str job)) jobs), log))
         \<and> (str_lower E [] = []
              \<and> (arguments ''filter'' = None \<or> arguments ''filter'' = Some (JStr [])) \<longrightarrow>
            call_tool_body E mgr ''get_jobs'' arguments = (render_jobs E jobs, log))
         \<and> ((\<forall>job\<in>set jobs. name_declared job) \<longrightarrow>
            filter_jobs E (str_lower E f) jobs
              = Inr (filter (\<lambda>job. contains_ci E f (name_str job)) jobs))
         \<and> (str_lower E [] = [] \<longrightarrow> filter_jobs E (str_lower E []) jobs = Inr jobs)"
proof -
  have given: "arguments ''filter'' = Some (JStr f) \<and> (\<forall>job\<in>set jobs. name_declared job) \<longrightarrow>
      call_tool_body E mgr ''get_jobs'' arguments
        = (render_jobs E (filter (\<lambda>job. contains_ci E f (name_str job)) jobs), log)"
    by (simp add: get_jobs_tool_unfold [OF assms] args_get_def py_lower_def bind_e_def
        filter_jobs_declared)
  have none: "str_lower E [] = []
        \<and> (arguments ''filter'' = None \<or> arguments ''filter'' = Some (JStr [])) \<longrightarrow>
      call_tool_body E mgr ''get_jobs'' arguments = (render_jobs E jobs, log)"
    by (auto simp add: get_jobs_tool_unfold [OF assms] args_get_def py_lower_def bind_e_def
        filter_jobs_def)
  show ?thesis
    using given none by (simp add: filter_jobs_declared) (simp add: filter_jobs_def)
qed

lemma ascii_lower_Build: "ascii_lower ''Build'' = ''build''"
  by code_simp

theorem get_jobs_filter_witness:
  "call_tool_body (demo_env jobs_server) demo_mgr ''get_jobs'' [''filter'' \<mapsto> JStr ''Build'']
     = (render_jobs (demo_env jobs_server) [job_nightly, job_docs],
        [get_request demo_mgr jobs_tree])
   \<and> call_tool_body (demo_env jobs_server) demo_mgr ''get_jobs'' Map.empty
     = (render_jobs (demo_env jobs_server) [job_nightly, job_deploy, job_docs, job_fresh],
        [get_request demo_mgr jobs_tree])
   \<and> contains_ci (demo_env jobs_server) ''Build'' ''nightly-build-1''"
proof -
  let ?E = "demo_env jobs_server"
  have lower: "str_lower ?E = ascii_lower"
    by (simp add: demo_env_def)
  have declared: "\<forall>job\<in>set [job_nightly, job_deploy, job_docs, job_fresh]. name_declared job"
    by (simp add: name_declared_def job_nightly_def job_deploy_def job_docs_def job_fresh_def)
  have m1: "contains_ci ?E ''Build'' ''nightly-build-1''"
    unfolding contains_ci_def lower by code_simp
  have m2: "\<not> contains_ci ?E ''Build'' ''deploy-prod''"
    unfolding contains_ci_def lower by code_simp
  have m3: "contains_ci ?E ''Build'' ''Docs-BUILD''"
    unfolding contains_ci_def lower by code_simp
  have m4: "\<not> contains_ci ?E ''Build'' ''fresh-job''"
    unfolding contains_ci_def lower by code_simp
  have sel: "filter (\<lambda>job. contains_ci ?E ''Build'' (name_str job))
        [job_nightly, job_deploy, job_docs, job_fresh] = [job_nightly, job_docs]"
    using m1 m2 m3 m4
    by (simp add: name_str_def job_nightly_def job_deploy_def job_docs_def job_fresh_def)
  have empty: "str_lower ?E [] = []"
    by (simp add: lower ascii_lower_def)
  show ?thesis
    using get_jobs_filter [OF demo_get_jobs, of "[''filter'' \<mapsto> JStr ''Build'']" "''Build''",
        unfolded sel]
      get_jobs_filter [OF demo_get_jobs, of Map.empty] declared empty m1
    by simp
qed


end
